theory Spec2Isabelle
  imports Main
begin

section \<open>Strings as the program sees them\<close>

text \<open>
  The TypeScript sources work on JavaScript strings. They are modelled as \<^typ>\<open>string\<close>;
  a character stands for one code unit below 256. The helper functions below are the
  library operations the sources call (\<^verbatim>\<open>trim\<close>, \<^verbatim>\<open>split\<close>, \<^verbatim>\<open>includes\<close>,
  \<^verbatim>\<open>indexOf\<close>, \<^verbatim>\<open>join\<close>, \<^verbatim>\<open>toLowerCase\<close>, \<^verbatim>\<open>parseInt\<close>).
\<close>

definition isWs :: "char \<Rightarrow> bool" where
  \<comment> \<open>the class \<^verbatim>\<open>\s\<close> and the characters removed by \<^verbatim>\<open>trim\<close>: TAB, LF, VT, FF, CR, SP, NBSP\<close>
  "isWs c = (c \<in> set [CHR 0x09, CHR 0x0A, CHR 0x0B, CHR 0x0C, CHR 0x0D, CHR '' '', CHR 0xA0])"

definition isDigit :: "char \<Rightarrow> bool" where
  \<comment> \<open>the class \<^verbatim>\<open>\d\<close>, also \<^verbatim>\<open>[0-9]\<close>\<close>
  "isDigit c = (c \<in> set ''0123456789'')"

definition isHex :: "char \<Rightarrow> bool" where
  \<comment> \<open>the class \<^verbatim>\<open>[0-9a-f]\<close> under the flag \<^verbatim>\<open>i\<close>\<close>
  "isHex c = (c \<in> set ''0123456789abcdefABCDEF'')"

definition lower :: "char \<Rightarrow> char" where
  \<comment> \<open>lower case of one character; the sources look only for ASCII text in what they
      lower, so the letters A to Z are the ones that matter\<close>
  "lower c = (case map_of (zip ''ABCDEFGHIJKLMNOPQRSTUVWXYZ'' ''abcdefghijklmnopqrstuvwxyz'') c of
                Some d \<Rightarrow> d | None \<Rightarrow> c)"

definition toLowerCase :: "string \<Rightarrow> string" where
  "toLowerCase s = map lower s"

definition trim :: "string \<Rightarrow> string" where
  "trim s = rev (dropWhile isWs (rev (dropWhile isWs s)))"

fun startsWith :: "string \<Rightarrow> string \<Rightarrow> bool" where
  \<comment> \<open>\<open>startsWith n h\<close>: the text \<open>h\<close> begins with \<open>n\<close>\<close>
  "startsWith [] h = True"
| "startsWith (a # n) [] = False"
| "startsWith (a # n) (b # h) = (a = b \<and> startsWith n h)"

fun includesStr :: "string \<Rightarrow> string \<Rightarrow> bool" where
  \<comment> \<open>\<open>includesStr n h\<close> is \<^verbatim>\<open>h.includes(n)\<close>\<close>
  "includesStr n [] = (n = [])"
| "includesStr n (c # h) = (startsWith n (c # h) \<or> includesStr n h)"

fun splitOn :: "char \<Rightarrow> string \<Rightarrow> string list" where
  \<comment> \<open>\<^verbatim>\<open>s.split(c)\<close> for a one-character separator: never the empty list\<close>
  "splitOn c [] = [[]]"
| "splitOn c (x # xs) =
     (if x = c then [] # splitOn c xs
      else (case splitOn c xs of h # t \<Rightarrow> (x # h) # t | [] \<Rightarrow> [[x]]))"

function splitWs :: "string \<Rightarrow> string list" where
  \<comment> \<open>\<^verbatim>\<open>s.split(/\s+/)\<close>: a maximal run of whitespace is one separator\<close>
  "splitWs [] = [[]]"
| "splitWs (x # xs) =
     (if isWs x then [] # splitWs (dropWhile isWs xs)
      else (case splitWs xs of h # t \<Rightarrow> (x # h) # t | [] \<Rightarrow> [[x]]))"
  by pat_completeness auto
termination
  by (relation "measure length") (auto simp: le_imp_less_Suc length_dropWhile_le)

fun joinWith :: "string \<Rightarrow> string list \<Rightarrow> string" where
  \<comment> \<open>\<open>joinWith sep xs\<close> is \<^verbatim>\<open>xs.join(sep)\<close>\<close>
  "joinWith sep [] = []"
| "joinWith sep [x] = x"
| "joinWith sep (x # y # r) = x @ sep @ joinWith sep (y # r)"

definition indexOf :: "char \<Rightarrow> string \<Rightarrow> nat option" where
  \<comment> \<open>\<^verbatim>\<open>s.indexOf(c)\<close>, with \<open>None\<close> for \<^verbatim>\<open>-1\<close>\<close>
  "indexOf c s = (if c \<in> set s then Some (length (takeWhile (\<lambda>x. x \<noteq> c) s)) else None)"

text \<open>
  A JavaScript number that \<^verbatim>\<open>parseInt\<close> can return: \<^verbatim>\<open>NaN\<close>, an integer that a double holds
  exactly, or an infinity. \<^verbatim>\<open>parseInt(s, 10)\<close> reads the digits as an integer and returns the
  double nearest to it (ties to the even mantissa), as Node's engine computes it: exact
  below \<open>2 ^ 53\<close>, rounded to 53 significant bits above, infinite from \<open>2 ^ 1024\<close> on.
  The sign of zero is not kept: \<^verbatim>\<open>-0\<close> is \<open>Num 0\<close>.
\<close>

datatype jsnum = NaN | Num int | PosInfinity | NegInfinity

definition digitVal :: "char \<Rightarrow> nat" where
  "digitVal c = (case map_of (zip ''0123456789'' [0, 1, 2, 3, 4, 5, 6, 7, 8, 9]) c of
                   Some d \<Rightarrow> d | None \<Rightarrow> 0)"

definition digitsVal :: "string \<Rightarrow> nat" where
  "digitsVal ds = foldl (\<lambda>a c. 10 * a + digitVal c) 0 ds"

fun bitLength :: "nat \<Rightarrow> nat" where
  \<comment> \<open>the number of binary digits of \<open>n\<close>\<close>
  "bitLength n = (if n = 0 then 0 else Suc (bitLength (n div 2)))"

declare bitLength.simps [simp del]

definition roundHalfEven :: "nat \<Rightarrow> nat" where
  \<comment> \<open>\<open>n\<close> rounded to 53 significant bits, a tie going to the even mantissa\<close>
  "roundHalfEven n =
     (let e = bitLength n - 53;
          q = n div 2 ^ e;
          r = n mod 2 ^ e;
          half = 2 ^ (e - 1);
          q' = (if half < r \<or> (r = half \<and> odd q) then q + 1 else q)
      in q' * 2 ^ e)"

definition doubleOf :: "bool \<Rightarrow> nat \<Rightarrow> jsnum" where
  \<comment> \<open>the double for the integer of magnitude \<open>n\<close>, negative when \<open>neg\<close>\<close>
  "doubleOf neg n =
     (if n < 9007199254740992 then Num (if neg then - int n else int n)
      else
        let m = roundHalfEven n in
        if 2 ^ 1024 \<le> m then (if neg then NegInfinity else PosInfinity)
        else Num (if neg then - int m else int m))"

definition parseInt :: "string \<Rightarrow> jsnum" where
  \<comment> \<open>\<^verbatim>\<open>parseInt(s, 10)\<close>: leading whitespace, an optional sign, the longest run of
      digits; \<^verbatim>\<open>NaN\<close> when there is no digit there\<close>
  "parseInt s =
     (let t = dropWhile isWs s;
          neg = (case t of c # _ \<Rightarrow> c = CHR ''-'' | [] \<Rightarrow> False);
          u = (case t of c # r \<Rightarrow> if c = CHR ''-'' \<or> c = CHR ''+'' then r else t | [] \<Rightarrow> t);
          ds = takeWhile isDigit u
      in if ds = [] then NaN else doubleOf neg (digitsVal ds))"

section \<open>The scan-result parser (wifi-commands.ts)\<close>

record ScanResult =
  sr_ssid :: string
  sr_bssid :: string
  sr_frequency :: jsnum
  sr_rssi :: jsnum
  sr_security :: string

fun hexGroups :: "nat \<Rightarrow> string \<Rightarrow> bool" where
  \<comment> \<open>\<open>hexGroups n s\<close>: \<open>s\<close> matches \<^verbatim>\<open>([0-9a-f]{2}:){n}[0-9a-f]{2}\<close> from start to end\<close>
  "hexGroups 0 s = (case s of [a, b] \<Rightarrow> isHex a \<and> isHex b | _ \<Rightarrow> False)"
| "hexGroups (Suc n) s =
     (case s of a # b # c # r \<Rightarrow> isHex a \<and> isHex b \<and> c = CHR '':'' \<and> hexGroups n r
      | _ \<Rightarrow> False)"

definition bssidPattern :: "string \<Rightarrow> bool" where
  \<comment> \<open>\<^verbatim>\<open>/^([0-9a-f]{2}:){5}[0-9a-f]{2}$/i.test(s)\<close>\<close>
  "bssidPattern s = hexGroups 5 s"

definition frequencyPattern :: "string \<Rightarrow> bool" where
  \<comment> \<open>\<^verbatim>\<open>/^\d{4,5}$/.test(s)\<close>\<close>
  "frequencyPattern s = ((length s = 4 \<or> length s = 5) \<and> list_all isDigit s)"

definition rssiPattern :: "string \<Rightarrow> bool" where
  \<comment> \<open>\<^verbatim>\<open>/^-?\d{1,3}$/.test(s)\<close>\<close>
  "rssiPattern s =
     (let d = (case s of c # r \<Rightarrow> if c = CHR ''-'' then r else s | [] \<Rightarrow> s)
      in 1 \<le> length d \<and> length d \<le> 3 \<and> list_all isDigit d)"

definition securityOf :: "string \<Rightarrow> string" where
  \<comment> \<open>the cascade of lines 127 to 135; \<open>security\<close> starts as \<^verbatim>\<open>'Open'\<close>\<close>
  "securityOf flagsPart =
     (if flagsPart \<noteq> [] then
        (if includesStr ''SAE'' flagsPart then ''SAE''
         else if includesStr ''WPA3'' flagsPart then ''WPA3''
         else if includesStr ''WPA2'' flagsPart then ''WPA2''
         else if includesStr ''WPA'' flagsPart then ''WPA''
         else if includesStr ''WEP'' flagsPart then ''WEP''
         else if includesStr ''OWE'' flagsPart then ''OWE''
         else ''Open'')
      else ''Open'')"

definition mainPartOf :: "string \<Rightarrow> string" where
  "mainPartOf line = (case indexOf CHR ''['' line of Some i \<Rightarrow> take i line | None \<Rightarrow> line)"

definition flagsPartOf :: "string \<Rightarrow> string" where
  "flagsPartOf line = (case indexOf CHR ''['' line of Some i \<Rightarrow> drop i line | None \<Rightarrow> [])"

definition parseScanLine :: "string \<Rightarrow> ScanResult option" where
  \<comment> \<open>one turn of the loop of \<^verbatim>\<open>parseScanResults\<close> on \<^verbatim>\<open>lines[i]\<close>;
      \<open>None\<close> when the turn pushes nothing\<close>
  "parseScanLine raw =
     (let line = trim raw in
      if line = [] then None
      else
        let mainPart = mainPartOf line;
            flagsPart = flagsPartOf line;
            parts = splitWs (trim mainPart)
        in if length parts < 3 then None
           else if \<not> bssidPattern (parts ! 0) then None
           else
             let bssid = parts ! 0;
                 frequency = (if frequencyPattern (parts ! 1) then parseInt (parts ! 1) else Num 0);
                 rssi = (if rssiPattern (parts ! 2) then parseInt (parts ! 2) else Num 0);
                 ssid = (if length parts > 4 then trim (joinWith '' '' (drop 4 parts)) else []);
                 security = securityOf flagsPart
             in if bssid \<noteq> [] then
                  Some \<lparr> sr_ssid = (if ssid \<noteq> [] then ssid else ''<hidden>''),
                         sr_bssid = bssid, sr_frequency = frequency, sr_rssi = rssi,
                         sr_security = security \<rparr>
                else None)"

fun scanLoop :: "string list \<Rightarrow> ScanResult list" where
  "scanLoop [] = []"
| "scanLoop (l # ls) =
     (case parseScanLine l of None \<Rightarrow> scanLoop ls | Some r \<Rightarrow> r # scanLoop ls)"

definition parseScanResults :: "string \<Rightarrow> ScanResult list" where
  "parseScanResults output =
     (let lines = splitOn CHR 0x0A output;
          startIndex = (case lines of l0 # _ \<Rightarrow> if includesStr ''BSSID'' l0 then 1 else 0
                        | [] \<Rightarrow> (0::nat))
      in scanLoop (drop startIndex lines))"

definition scanTokens :: "string \<Rightarrow> string list" where
  \<comment> \<open>\<^verbatim>\<open>parts\<close> of the loop body for a raw line: the tokens before the first bracket\<close>
  "scanTokens l = splitWs (trim (mainPartOf (trim l)))"

definition firstToken :: "string \<Rightarrow> string" where
  \<comment> \<open>the first whitespace-delimited token of a raw line (the empty text when there is none)\<close>
  "firstToken l = takeWhile (\<lambda>c. \<not> isWs c) (dropWhile isWs l)"

definition capabilitySuffix :: "string \<Rightarrow> string" where
  \<comment> \<open>the bracketed suffix of a raw line: everything from its first \<^verbatim>\<open>[\<close> on\<close>
  "capabilitySuffix l = dropWhile (\<lambda>c. c \<noteq> CHR ''['') (trim l)"

definition securityPriority :: "(string \<times> string) list" where
  \<comment> \<open>the priority order of the specification, as (marker, label) pairs, first match wins\<close>
  "securityPriority =
     [(''SAE'', ''SAE''), (''WPA3'', ''WPA3''), (''WPA2'', ''WPA2''), (''WPA'', ''WPA''),
      (''WEP'', ''WEP''), (''OWE'', ''OWE'')]"

definition firstMatchLabel :: "string \<Rightarrow> string" where
  "firstMatchLabel caps =
     (case find (\<lambda>(marker, label). includesStr marker caps) securityPriority of
        Some (marker, label) \<Rightarrow> label | None \<Rightarrow> ''Open'')"

section \<open>Regular expressions of the sources\<close>

text \<open>
  The sources search text with JavaScript regular expressions. \<open>rx\<close> holds the constructs
  they use; \<open>ms\<close> lists the ways an expression matches at the start of a text, in the
  order the backtracking matcher tries them (a quantifier takes as much as it can first, an
  alternative is tried left to right), each as the rest of the text and the text captured by
  the one group. The first entry is the match the engine reports.
\<close>

datatype rx =
    Atom "char \<Rightarrow> bool"
  | Eps
  | Seq rx rx
  | Alt rx rx
  | Opt rx
  | Many "char \<Rightarrow> bool"
  | Grp rx

fun ms :: "rx \<Rightarrow> string \<Rightarrow> string option \<Rightarrow> (string \<times> string option) list" where
  "ms (Atom p) s c = (case s of x # xs \<Rightarrow> if p x then [(xs, c)] else [] | [] \<Rightarrow> [])"
| "ms Eps s c = [(s, c)]"
| "ms (Seq a b) s c = concat (map (\<lambda>sc. ms b (fst sc) (snd sc)) (ms a s c))"
| "ms (Alt a b) s c = ms a s c @ ms b s c"
| "ms (Opt a) s c = ms a s c @ [(s, c)]"
| "ms (Many p) s c =
     (case s of x # xs \<Rightarrow> (if p x then ms (Many p) xs c else []) @ [(s, c)]
      | [] \<Rightarrow> [(s, c)])"
| "ms (Grp a) s c =
     map (\<lambda>sc. (fst sc, Some (take (length s - length (fst sc)) s))) (ms a s c)"

fun search :: "rx \<Rightarrow> string \<Rightarrow> string option option" where
  \<comment> \<open>\<^verbatim>\<open>s.match(r)\<close> for an expression without \<^verbatim>\<open>^\<close>: the leftmost match; \<open>None\<close> is
      \<^verbatim>\<open>null\<close>, \<open>Some c\<close> a match whose group 1 is \<open>c\<close>\<close>
  "search r [] = (case ms r [] None of sc # _ \<Rightarrow> Some (snd sc) | [] \<Rightarrow> None)"
| "search r (x # xs) =
     (case ms r (x # xs) None of sc # _ \<Rightarrow> Some (snd sc) | [] \<Rightarrow> search r xs)"

definition matchStart :: "rx \<Rightarrow> string \<Rightarrow> string option option" where
  \<comment> \<open>\<^verbatim>\<open>s.match(r)\<close> for an expression that begins with \<^verbatim>\<open>^\<close>\<close>
  "matchStart r s = (case ms r s None of sc # _ \<Rightarrow> Some (snd sc) | [] \<Rightarrow> None)"

definition group1 :: "string option option \<Rightarrow> string option" where
  \<comment> \<open>\<^verbatim>\<open>m[1]\<close> of a match whose group took part in it\<close>
  "group1 m = (case m of Some (Some g) \<Rightarrow> Some g | _ \<Rightarrow> None)"

definition captures :: "rx \<Rightarrow> bool" where
  \<comment> \<open>every match of the expression sets the group\<close>
  "captures r = (\<forall>s c s' c'. (s', c') \<in> set (ms r s c) \<longrightarrow> c' \<noteq> None)"

definition ci :: "char \<Rightarrow> rx" where
  \<comment> \<open>a literal character under the flag \<^verbatim>\<open>i\<close>\<close>
  "ci a = Atom (\<lambda>x. lower x = lower a)"

definition cs :: "char \<Rightarrow> rx" where
  "cs a = Atom (\<lambda>x. x = a)"

fun seqs :: "rx list \<Rightarrow> rx" where
  "seqs [] = Eps"
| "seqs [r] = r"
| "seqs (r # rs) = Seq r (seqs rs)"

definition lit :: "string \<Rightarrow> rx" where
  \<comment> \<open>a literal text under the flag \<^verbatim>\<open>i\<close>\<close>
  "lit s = seqs (map ci s)"

definition plus :: "(char \<Rightarrow> bool) \<Rightarrow> rx" where
  \<comment> \<open>\<^verbatim>\<open>p+\<close>\<close>
  "plus p = Seq (Atom p) (Many p)"

fun times :: "nat \<Rightarrow> rx \<Rightarrow> rx" where
  \<comment> \<open>\<^verbatim>\<open>r{n}\<close>\<close>
  "times 0 r = Eps"
| "times (Suc n) r = Seq r (times n r)"

definition isQuote :: "char \<Rightarrow> bool" where
  \<comment> \<open>\<^verbatim>\<open>["']\<close>\<close>
  "isQuote c = (c = CHR 0x22 \<or> c = CHR 0x27)"

definition isDotDigit :: "char \<Rightarrow> bool" where
  \<comment> \<open>\<^verbatim>\<open>[0-9.]\<close>\<close>
  "isDotDigit c = (isDigit c \<or> c = CHR ''.'')"

definition isHexColon :: "char \<Rightarrow> bool" where
  \<comment> \<open>\<^verbatim>\<open>[0-9a-f:]\<close> under the flag \<^verbatim>\<open>i\<close>\<close>
  "isHexColon c = (isHex c \<or> c = CHR '':'')"

section \<open>The status and saved-network parsers (wifi-commands.ts)\<close>

definition statusSsidRx :: rx where
  \<comment> \<open>\<^verbatim>\<open>/SSID:\s*["']?([^"',\n]+)["']?/i\<close>\<close>
  "statusSsidRx =
     seqs [lit ''SSID:'', Many isWs, Opt (Atom isQuote),
           Grp (plus (\<lambda>c. \<not> isQuote c \<and> c \<noteq> CHR '','' \<and> c \<noteq> CHR 0x0A)),
           Opt (Atom isQuote)]"

definition statusBssidRx :: rx where
  \<comment> \<open>\<^verbatim>\<open>/BSSID:\s*([0-9a-f:]{17})/i\<close>\<close>
  "statusBssidRx = seqs [lit ''BSSID:'', Many isWs, Grp (times 17 (Atom isHexColon))]"

definition statusIpRx :: rx where
  \<comment> \<open>\<^verbatim>\<open>/IP(?:\s+address)?:\s*([0-9.]+)/i\<close>\<close>
  "statusIpRx =
     seqs [lit ''IP'', Opt (Seq (plus isWs) (lit ''address'')), ci CHR '':'', Many isWs,
           Grp (plus isDotDigit)]"

definition statusSpeedRx :: rx where
  \<comment> \<open>\<^verbatim>\<open>/Link\s+speed:\s*(\d+)/i\<close>\<close>
  "statusSpeedRx = seqs [lit ''Link'', plus isWs, lit ''speed:'', Many isWs, Grp (plus isDigit)]"

definition statusRssiRx :: rx where
  \<comment> \<open>\<^verbatim>\<open>/RSSI:\s*(-?\d+)/i\<close>\<close>
  "statusRssiRx =
     seqs [lit ''RSSI:'', Many isWs, Grp (Seq (Opt (cs CHR ''-'')) (plus isDigit))]"

definition statusFreqRx :: rx where
  \<comment> \<open>\<^verbatim>\<open>/Frequency:\s*(\d+)/i\<close>\<close>
  "statusFreqRx = seqs [lit ''Frequency:'', Many isWs, Grp (plus isDigit)]"

record WifiStatus =
  enabled :: bool
  connected :: bool
  st_ssid :: "string option"
  st_bssid :: "string option"
  ipAddress :: "string option"
  linkSpeed :: "jsnum option"
  st_rssi :: "jsnum option"
  st_frequency :: "jsnum option"

definition parseStatus :: "string \<Rightarrow> string \<Rightarrow> WifiStatus" where
  \<comment> \<open>the body of \<^verbatim>\<open>getStatus\<close> after its two shell calls: \<open>statusOut\<close> is the output of
      \<^verbatim>\<open>cmd wifi status\<close>, \<open>dumpsys\<close> that of the \<^verbatim>\<open>dumpsys wifi\<close> pipeline. An optional
      field that is never assigned is \<open>None\<close>. Every match of these expressions sets its
      group, so \<open>group1\<close> is \<open>None\<close> only when there is no match.\<close>
  "parseStatus statusOut dumpsys =
     (let ssidMatch = search statusSsidRx dumpsys;
          bssidMatch = search statusBssidRx dumpsys;
          ipMatch = search statusIpRx dumpsys;
          speedMatch = search statusSpeedRx dumpsys;
          rssiMatch = search statusRssiRx dumpsys;
          freqMatch = search statusFreqRx dumpsys
      in \<lparr> enabled = includesStr ''wifi is enabled'' (toLowerCase statusOut),
           connected = (includesStr ''state: COMPLETED'' dumpsys \<or> includesStr ''CONNECTED'' dumpsys),
           st_ssid = (case group1 ssidMatch of
                        Some g \<Rightarrow> if g \<noteq> ''<none>'' then Some (trim g) else None
                      | None \<Rightarrow> None),
           st_bssid = group1 bssidMatch,
           ipAddress = group1 ipMatch,
           linkSpeed = map_option parseInt (group1 speedMatch),
           st_rssi = map_option parseInt (group1 rssiMatch),
           st_frequency = map_option parseInt (group1 freqMatch) \<rparr>)"

definition savedIdRx :: rx where
  \<comment> \<open>\<^verbatim>\<open>/(?:Network\s+)?ID:?\s*(\d+)/i\<close>\<close>
  "savedIdRx =
     seqs [Opt (Seq (lit ''Network'') (plus isWs)), lit ''ID'', Opt (ci CHR '':''), Many isWs,
           Grp (plus isDigit)]"

definition savedSsidRx :: rx where
  \<comment> \<open>\<^verbatim>\<open>/SSID:?\s*["']?([^"'\n]+)["']?/i\<close>\<close>
  "savedSsidRx =
     seqs [lit ''SSID'', Opt (ci CHR '':''), Many isWs, Opt (Atom isQuote),
           Grp (plus (\<lambda>c. \<not> isQuote c \<and> c \<noteq> CHR 0x0A)), Opt (Atom isQuote)]"

record SavedNetwork =
  networkId :: jsnum
  sn_ssid :: string

definition parseSavedLine :: "string \<Rightarrow> SavedNetwork option" where
  \<comment> \<open>one turn of the loop of \<^verbatim>\<open>parseSavedNetworks\<close>; \<open>None\<close> when it pushes nothing\<close>
  "parseSavedLine line =
     (let trimmed = trim line in
      if trimmed = [] then None
      else
        let idMatch = search savedIdRx trimmed;
            ssidMatch = search savedSsidRx trimmed
        in (case group1 idMatch of
              Some g \<Rightarrow>
                Some \<lparr> networkId = parseInt g,
                       sn_ssid = (case group1 ssidMatch of Some t \<Rightarrow> trim t | None \<Rightarrow> ''Unknown'') \<rparr>
            | None \<Rightarrow> None))"

fun savedLoop :: "string list \<Rightarrow> SavedNetwork list" where
  "savedLoop [] = []"
| "savedLoop (l # ls) =
     (case parseSavedLine l of None \<Rightarrow> savedLoop ls | Some n \<Rightarrow> n # savedLoop ls)"

definition parseSavedNetworks :: "string \<Rightarrow> SavedNetwork list" where
  "parseSavedNetworks output = savedLoop (splitOn CHR 0x0A output)"

section \<open>The command executor (adb-client.ts)\<close>

text \<open>
  \<^verbatim>\<open>AdbClient.exec\<close> hands a command line to Node's promisified \<^verbatim>\<open>child_process.exec\<close>
  with a timeout. That call lies outside the repository: it either resolves with the
  output of the process or rejects with an error object. The source reads four fields of
  the error (\<^verbatim>\<open>stdout\<close>, \<^verbatim>\<open>stderr\<close>, \<^verbatim>\<open>code\<close>, \<^verbatim>\<open>message\<close>); Node also sets \<^verbatim>\<open>killed\<close>
  when it ended the process itself because the timeout elapsed, and \<^verbatim>\<open>signal\<close> when a
  signal ended it.
\<close>

record ExecError =
  err_stdout :: "string option"
  err_stderr :: "string option"
  err_code :: "int option"
  err_message :: "string option"
  killed :: bool
  signal :: "string option"

datatype ExecOutcome = Resolved string string | Rejected ExecError

record AdbResult =
  success :: bool
  stdout :: string
  stderr :: string
  exitCode :: int

definition orElse :: "string option \<Rightarrow> string \<Rightarrow> string" where
  \<comment> \<open>\<^verbatim>\<open>a || b\<close> on an optional text: \<open>b\<close> when \<open>a\<close> is missing or empty\<close>
  "orElse a b = (case a of Some s \<Rightarrow> if s \<noteq> [] then s else b | None \<Rightarrow> b)"

definition adbResultOf :: "ExecOutcome \<Rightarrow> AdbResult" where
  \<comment> \<open>the \<^verbatim>\<open>try\<close> and \<^verbatim>\<open>catch\<close> branches of \<^verbatim>\<open>exec\<close>\<close>
  "adbResultOf outcome =
     (case outcome of
        Resolved out err \<Rightarrow>
          \<lparr> success = True, stdout = trim out, stderr = trim err, exitCode = 0 \<rparr>
      | Rejected e \<Rightarrow>
          \<lparr> success = False,
            stdout = orElse (map_option trim (err_stdout e)) [],
            stderr = orElse (map_option trim (err_stderr e)) (orElse (err_message e) ''Unknown error''),
            exitCode = (case err_code e of Some c \<Rightarrow> if c \<noteq> 0 then c else 1 | None \<Rightarrow> 1) \<rparr>)"

text \<open>
  The state of the process and of its surroundings. \<open>selectedDevice\<close> and \<open>adbPath\<close> are
  the fields of \<^verbatim>\<open>AdbClient\<close>; \<open>devices\<close> is the cache of \<^verbatim>\<open>DeviceManager\<close>, a map kept
  in insertion order; \<open>clock\<close> is what \<^verbatim>\<open>Date.now()\<close> reads, in milliseconds;
  \<open>log\<close> lists the command lines handed to the operating system so far, oldest first;
  \<open>dev\<close> is everything outside the process (the bridge, the device, the companion app).
  An environment \<open>E\<close> answers a command line, given the timeout, the time and the outside
  state, with the outcome of the call, the time it took and the new outside state.
\<close>

record DeviceInfo =
  i_serial :: "string option"
  i_model :: string
  i_brand :: string
  i_manufacturer :: string
  i_androidVersion :: string
  i_sdkVersion :: jsnum
  i_buildId :: string

record 'd world =
  adbPath :: string
  selectedDevice :: "string option"
  devices :: "(string \<times> DeviceInfo) list"
  clock :: nat
  log :: "string list"
  dev :: 'd

type_synonym 'd env = "string \<Rightarrow> nat \<Rightarrow> nat \<Rightarrow> 'd \<Rightarrow> ExecOutcome \<times> nat \<times> 'd"

definition truthyStr :: "string option \<Rightarrow> bool" where
  \<comment> \<open>the truth value JavaScript gives a text that may be \<^verbatim>\<open>null\<close> or \<^verbatim>\<open>undefined\<close>\<close>
  "truthyStr a = (case a of Some s \<Rightarrow> s \<noteq> [] | None \<Rightarrow> False)"

definition commandLine :: "'d world \<Rightarrow> string list \<Rightarrow> string" where
  \<comment> \<open>the first three lines of \<^verbatim>\<open>exec\<close>: the command line for the arguments \<open>args\<close>\<close>
  "commandLine w args =
     (let deviceArgs = (case selectedDevice w of
                          Some s \<Rightarrow> if s \<noteq> [] then [''-s'', s] else []
                        | None \<Rightarrow> []);
          fullArgs = deviceArgs @ args
      in adbPath w @ '' '' @ joinWith '' '' fullArgs)"

definition exec :: "'d env \<Rightarrow> string list \<Rightarrow> nat \<Rightarrow> 'd world \<Rightarrow> AdbResult \<times> 'd world" where
  "exec E args timeout w =
     (let command = commandLine w args;
          (outcome, dt, d') = E command timeout (clock w) (dev w)
      in (adbResultOf outcome,
          w\<lparr> clock := clock w + dt, log := log w @ [command], dev := d' \<rparr>))"

definition shellT :: "'d env \<Rightarrow> string \<Rightarrow> nat \<Rightarrow> 'd world \<Rightarrow> AdbResult \<times> 'd world" where
  \<comment> \<open>\<^verbatim>\<open>shell(command, timeout)\<close>\<close>
  "shellT E command timeout w = exec E [''shell'', command] timeout w"

definition shell :: "'d env \<Rightarrow> string \<Rightarrow> 'd world \<Rightarrow> AdbResult \<times> 'd world" where
  \<comment> \<open>\<^verbatim>\<open>shell(command)\<close> with the default timeout\<close>
  "shell E command w = shellT E command 30000 w"

definition sleep :: "nat \<Rightarrow> 'd world \<Rightarrow> 'd world" where
  \<comment> \<open>\<^verbatim>\<open>await new Promise(resolve => setTimeout(resolve, n))\<close>\<close>
  "sleep n w = w\<lparr> clock := clock w + n \<rparr>"

section \<open>Status query and connect (wifi-commands.ts)\<close>

definition getStatus :: "'d env \<Rightarrow> 'd world \<Rightarrow> WifiStatus \<times> 'd world" where
  "getStatus E w =
     (let (statusResult, w1) = shell E ''cmd wifi status'' w;
          (dumpsysResult, w2) =
             shell E (''dumpsys wifi | grep -E '' @ [CHR 0x22] @
                      ''mWifiInfo|Wi-Fi is|current SSID|IP address|Link speed|Frequency|RSSI'' @
                      [CHR 0x22]) w1
      in (parseStatus (stdout statusResult) (stdout dumpsysResult), w2))"

datatype SecurityType = SecOpen | SecOwe | SecWpa2 | SecWpa3

fun securityText :: "SecurityType \<Rightarrow> string" where
  "securityText SecOpen = ''open''"
| "securityText SecOwe = ''owe''"
| "securityText SecWpa2 = ''wpa2''"
| "securityText SecWpa3 = ''wpa3''"

record WifiConnectionResult =
  wc_success :: bool
  wc_ssid :: string
  wc_error :: "string option"

definition connectCommand :: "string \<Rightarrow> SecurityType \<Rightarrow> string option \<Rightarrow> string" where
  "connectCommand ssid sec password =
     (let command = ''cmd wifi connect-network '' @ [CHR 0x22] @ ssid @ [CHR 0x22] @ '' '' @
                    securityText sec
      in (case password of
            Some p \<Rightarrow>
              if p \<noteq> [] \<and> sec \<noteq> SecOpen then command @ '' '' @ [CHR 0x22] @ p @ [CHR 0x22]
              else command
          | None \<Rightarrow> command))"

definition connect ::
  "'d env \<Rightarrow> string \<Rightarrow> SecurityType \<Rightarrow> string option \<Rightarrow> 'd world \<Rightarrow> WifiConnectionResult \<times> 'd world"
where
  "connect E ssid sec password w =
     (let (result, w1) = shell E (connectCommand ssid sec password) w in
      if \<not> success result \<or> includesStr ''error'' (toLowerCase (stdout result)) then
        (\<lparr> wc_success = False, wc_ssid = ssid,
           wc_error = Some (orElse (Some (stderr result))
                              (orElse (Some (stdout result)) ''Connection failed'')) \<rparr>, w1)
      else
        let w2 = sleep 3000 w1;
            (status, w3) = getStatus E w2;
            isConnected = (connected status \<and> st_ssid status = Some ssid)
        in (\<lparr> wc_success = isConnected, wc_ssid = ssid,
              wc_error = (if isConnected then None else Some ''Failed to verify connection'') \<rparr>,
            w3))"

section \<open>DNS lookup (network-check.ts)\<close>

definition addressRx :: rx where
  \<comment> \<open>\<^verbatim>\<open>/Address(?:\s+\d)?:\s*([0-9.]+|[0-9a-f:]+)/i\<close>\<close>
  "addressRx =
     seqs [lit ''Address'', Opt (Seq (plus isWs) (Atom isDigit)), ci CHR '':'', Many isWs,
           Grp (Alt (plus isDotDigit) (plus isHexColon))]"

definition getentRx :: rx where
  \<comment> \<open>\<^verbatim>\<open>/^([0-9.]+)/\<close>, used with \<open>matchStart\<close>\<close>
  "getentRx = Grp (plus isDotDigit)"

definition pingAddrRx :: rx where
  \<comment> \<open>\<^verbatim>\<open>/\(([0-9.]+)\)/\<close>\<close>
  "pingAddrRx = seqs [cs CHR ''('', Grp (plus isDotDigit), cs CHR '')'']"

record DnsResult =
  dns_hostname :: string
  addresses :: "string list"
  dns_error :: "string option"

fun nslookupLoop :: "bool \<Rightarrow> string list \<Rightarrow> string list" where
  \<comment> \<open>the loop over the lines of the \<^verbatim>\<open>nslookup\<close> output, from the flag \<open>inAnswer\<close>:
      the addresses it pushes, in order\<close>
  "nslookupLoop inAnswer [] = []"
| "nslookupLoop inAnswer (line # ls) =
     (let inAnswer' = (inAnswer \<or> includesStr ''Name:'' line) in
      if inAnswer' then
        (case group1 (search addressRx line) of
           Some a \<Rightarrow>
             if \<not> includesStr '':'' a then a # nslookupLoop inAnswer' ls
             else nslookupLoop inAnswer' ls
         | None \<Rightarrow> nslookupLoop inAnswer' ls)
      else nslookupLoop inAnswer' ls)"

definition dnsLookup :: "'d env \<Rightarrow> string \<Rightarrow> 'd world \<Rightarrow> DnsResult \<times> 'd world" where
  "dnsLookup E hostname w =
     (let (result1, w1) = shell E (''nslookup '' @ hostname) w;
          a1 = (if success result1 then nslookupLoop False (splitOn CHR 0x0A (stdout result1))
                else []);
          (a2, w2) =
            (if length a1 = 0 then
               (let (result2, v) = shell E (''getent hosts '' @ hostname) w1
                in (if success result2 then
                      (case group1 (matchStart getentRx (stdout result2)) of
                         Some m \<Rightarrow> a1 @ [m] | None \<Rightarrow> a1)
                    else a1, v))
             else (a1, w1));
          (a3, w3) =
            (if length a2 = 0 then
               (let (result3, v) = shell E (''ping -c 1 '' @ hostname) w2
                in (if success result3 then
                      (case group1 (search pingAddrRx (stdout result3)) of
                         Some m \<Rightarrow> a2 @ [m] | None \<Rightarrow> a2)
                    else a2, v))
             else (a2, w2))
      in (\<lparr> dns_hostname = hostname, addresses = a3,
            dns_error = (if length a3 = 0 then Some ''DNS lookup failed'' else None) \<rparr>, w3))"

section \<open>The enterprise bridge (enterprise-wifi.ts)\<close>

definition COMPANION_PACKAGE :: string where
  "COMPANION_PACKAGE = ''com.example.wifimcpcompanion''"

definition COMMAND_FILE :: string where
  "COMMAND_FILE = ''/sdcard/Download/wifi_mcp_command.json''"

definition RESULT_FILE :: string where
  "RESULT_FILE = ''/sdcard/Download/wifi_mcp_result.json''"

definition RESULT_TIMEOUT :: nat where
  "RESULT_TIMEOUT = 30000"

definition pollInterval :: nat where
  "pollInterval = 500"

datatype EapMethod = Peap | Ttls | Tls

datatype Phase2Method = Mschapv2 | Pap | Gtc | NoPhase2

record EapConfig =
  eap_ssid :: string
  eapMethod :: EapMethod
  phase2Method :: "Phase2Method option"
  identity :: string
  password :: "string option"
  anonymousIdentity :: "string option"
  domainSuffixMatch :: string
  caCertificate :: "string option"
  clientCertificate :: "string option"
  privateKey :: "string option"
  privateKeyPassword :: "string option"

record EnterpriseConnectionResult =
  ec_success :: bool
  ec_ssid :: string
  ec_eapMethod :: EapMethod
  ec_error :: "string option"

record CommandPayload =
  action :: string
  timestamp :: nat
  config :: EapConfig

text \<open>
  \<^verbatim>\<open>JSON.stringify\<close> and \<^verbatim>\<open>JSON.parse\<close> are library functions; the operations take them
  as a parameter \<open>J\<close>. A parsed value has the type \<open>'j\<close>; \<open>json_parse\<close> gives \<open>None\<close> where
  \<^verbatim>\<open>JSON.parse\<close> throws, and \<open>json_truthy\<close> is the truth value of a parsed value.
\<close>

record 'j json =
  json_stringify :: "CommandPayload \<Rightarrow> string"
  json_parse :: "string \<Rightarrow> 'j option"
  json_truthy :: "'j \<Rightarrow> bool"

datatype 'j EnterpriseOutcome =
    Local EnterpriseConnectionResult
  | FromAgent 'j

definition isCompanionAppInstalled :: "'d env \<Rightarrow> 'd world \<Rightarrow> bool \<times> 'd world" where
  "isCompanionAppInstalled E w =
     (let (result, w1) = shell E (''pm list packages | grep '' @ COMPANION_PACKAGE) w
      in (includesStr COMPANION_PACKAGE (stdout result), w1))"

definition shellEscape :: "string \<Rightarrow> string" where
  \<comment> \<open>\<^verbatim>\<open>json.replace(/'/g, "'\\''")\<close>\<close>
  "shellEscape json =
     concat (map (\<lambda>c. if c = CHR 0x27 then [CHR 0x27, CHR 0x5C, CHR 0x27, CHR 0x27] else [c]) json)"

definition writeCommandFile :: "'j json \<Rightarrow> 'd env \<Rightarrow> CommandPayload \<Rightarrow> 'd world \<Rightarrow> 'd world" where
  "writeCommandFile J E payload w =
     (let json = json_stringify J payload;
          escaped = shellEscape json
      in snd (shell E (''echo '' @ [CHR 0x27] @ escaped @ [CHR 0x27] @ '' > '' @ COMMAND_FILE) w))"

definition rmResultCommand :: string where
  "rmResultCommand = ''rm -f '' @ RESULT_FILE"

definition catResultCommand :: string where
  "catResultCommand = ''cat '' @ RESULT_FILE @ '' 2>/dev/null''"

lemma clock_shell: "clock w \<le> clock (snd (shell E c w))"
  by (simp add: shell_def shellT_def exec_def Let_def split: prod.splits)

function pollLoop :: "'j json \<Rightarrow> 'd env \<Rightarrow> nat \<Rightarrow> 'd world \<Rightarrow> 'j option \<times> 'd world" where
  \<comment> \<open>the \<^verbatim>\<open>while\<close> loop of \<^verbatim>\<open>waitForResult\<close>\<close>
  "pollLoop J E startTime w =
     (if clock w - startTime < RESULT_TIMEOUT then
        (let w1 = sleep pollInterval w;
             checkResult = fst (shell E catResultCommand w1);
             w2 = snd (shell E catResultCommand w1)
         in if success checkResult \<and> trim (stdout checkResult) \<noteq> [] then
              (case json_parse J (stdout checkResult) of
                 Some result \<Rightarrow> (Some result, snd (shell E rmResultCommand w2))
               | None \<Rightarrow> pollLoop J E startTime w2)
            else pollLoop J E startTime w2)
      else (None, w))"
  by pat_completeness auto
termination
proof (relation "measure (\<lambda>(J, E, startTime, w). startTime + RESULT_TIMEOUT - clock w)")
  show "wf (measure (\<lambda>(J, E, startTime, w). startTime + RESULT_TIMEOUT - clock w))" by simp
next
  fix J :: "'j json" and E :: "'d env" and startTime :: nat and w w1 :: "'d world"
    and checkResult w2
  assume a: "clock w - startTime < RESULT_TIMEOUT" and w1: "w1 = sleep pollInterval w"
    and w2: "w2 = snd (shell E catResultCommand w1)"
  have "clock w + pollInterval \<le> clock w2"
    using clock_shell[of w1 E catResultCommand] by (simp add: w1 w2 sleep_def)
  with a show "((J, E, startTime, w2), (J, E, startTime, w))
      \<in> measure (\<lambda>(J, E, startTime, w). startTime + RESULT_TIMEOUT - clock w)"
    by (simp add: pollInterval_def)
  with a show "((J, E, startTime, w2), (J, E, startTime, w))
      \<in> measure (\<lambda>(J, E, startTime, w). startTime + RESULT_TIMEOUT - clock w)"
    by simp
qed

definition waitForResult :: "'j json \<Rightarrow> 'd env \<Rightarrow> string \<Rightarrow> 'd world \<Rightarrow> 'j option \<times> 'd world" where
  "waitForResult J E identifier w =
     (let startTime = clock w;
          w1 = snd (shell E rmResultCommand w)
      in pollLoop J E startTime w1)"

definition falsyStr :: "string option \<Rightarrow> bool" where
  \<comment> \<open>\<^verbatim>\<open>!x\<close> on an optional text: missing or empty\<close>
  "falsyStr a = (\<not> truthyStr a)"

definition broadcastCommand :: string where
  "broadcastCommand =
     ''am broadcast -a '' @ COMPANION_PACKAGE @ ''.CONNECT_ENTERPRISE '' @
     ''-n '' @ COMPANION_PACKAGE @ ''/.AdbBridgeReceiver '' @
     ''--es config_file '' @ [CHR 0x22] @ COMMAND_FILE @ [CHR 0x22]"

definition connectEnterprise ::
  "'j json \<Rightarrow> 'd env \<Rightarrow> EapConfig \<Rightarrow> 'd world \<Rightarrow> 'j EnterpriseOutcome \<times> 'd world"
where
  "connectEnterprise J E cfg w =
     (if (eapMethod cfg = Peap \<or> eapMethod cfg = Ttls) \<and> falsyStr (password cfg) then
        (Local \<lparr> ec_success = False, ec_ssid = eap_ssid cfg, ec_eapMethod = eapMethod cfg,
                  ec_error = Some ''Password is required for EAP-PEAP/TTLS'' \<rparr>, w)
      else if eapMethod cfg = Tls \<and>
              (falsyStr (clientCertificate cfg) \<or> falsyStr (privateKey cfg)) then
        (Local \<lparr> ec_success = False, ec_ssid = eap_ssid cfg, ec_eapMethod = eapMethod cfg,
                  ec_error = Some ''Client certificate and private key are required for EAP-TLS'' \<rparr>,
         w)
      else
        let (appInstalled, w1) = isCompanionAppInstalled E w in
        if \<not> appInstalled then
          (Local \<lparr> ec_success = False, ec_ssid = eap_ssid cfg, ec_eapMethod = eapMethod cfg,
                    ec_error = Some (''Companion app not installed. Please install '' @
                                     COMPANION_PACKAGE) \<rparr>, w1)
        else
          let commandPayload = \<lparr> action = ''connect_enterprise'', timestamp = clock w1,
                                   config = cfg \<rparr>;
              w2 = writeCommandFile J E commandPayload w1;
              (broadcastResult, w3) = shell E broadcastCommand w2
          in if \<not> success broadcastResult then
               (Local \<lparr> ec_success = False, ec_ssid = eap_ssid cfg, ec_eapMethod = eapMethod cfg,
                         ec_error = Some (''Failed to send broadcast: '' @ stderr broadcastResult) \<rparr>,
                w3)
             else
               let (result, w4) = waitForResult J E (eap_ssid cfg) w3 in
               (case result of
                  Some v \<Rightarrow>
                    if json_truthy J v then (FromAgent v, w4)
                    else (Local \<lparr> ec_success = False, ec_ssid = eap_ssid cfg,
                                   ec_eapMethod = eapMethod cfg,
                                   ec_error = Some ''Timeout waiting for connection result'' \<rparr>, w4)
                | None \<Rightarrow>
                    (Local \<lparr> ec_success = False, ec_ssid = eap_ssid cfg,
                              ec_eapMethod = eapMethod cfg,
                              ec_error = Some ''Timeout waiting for connection result'' \<rparr>, w4)))"

section \<open>Device listing and selection (adb-client.ts, device-manager.ts)\<close>

record Device =
  d_serial :: string
  d_state :: string
  d_product :: "string option"
  d_model :: "string option"
  d_device :: "string option"
  d_transportId :: "string option"

definition applyProperty :: "Device \<Rightarrow> string \<Rightarrow> Device" where
  \<comment> \<open>one turn of the inner loop of \<^verbatim>\<open>listDevices\<close>: \<^verbatim>\<open>[key, value] = parts[i].split(':')\<close>\<close>
  "applyProperty device part =
     (let kv = splitOn CHR '':'' part;
          key = (case kv of k # _ \<Rightarrow> k | [] \<Rightarrow> []);
          val = (case kv of _ # v # _ \<Rightarrow> Some v | _ \<Rightarrow> None)
      in if key = ''product'' then device\<lparr> d_product := val \<rparr>
         else if key = ''model'' then device\<lparr> d_model := val \<rparr>
         else if key = ''device'' then device\<lparr> d_device := val \<rparr>
         else if key = ''transport_id'' then device\<lparr> d_transportId := val \<rparr>
         else device)"

definition parseDeviceLine :: "string \<Rightarrow> Device option" where
  \<comment> \<open>one turn of the outer loop of \<^verbatim>\<open>listDevices\<close>; \<open>None\<close> when it pushes nothing\<close>
  "parseDeviceLine line =
     (if trim line = [] then None
      else
        let parts = splitWs (trim line) in
        if length parts < 2 then None
        else Some (foldl applyProperty
                     \<lparr> d_serial = parts ! 0, d_state = parts ! 1, d_product = None,
                       d_model = None, d_device = None, d_transportId = None \<rparr>
                     (drop 2 parts)))"

fun deviceLoop :: "string list \<Rightarrow> Device list" where
  "deviceLoop [] = []"
| "deviceLoop (l # ls) =
     (case parseDeviceLine l of None \<Rightarrow> deviceLoop ls | Some d \<Rightarrow> d # deviceLoop ls)"

definition listDevices :: "'d env \<Rightarrow> 'd world \<Rightarrow> (string + Device list) \<times> 'd world" where
  \<comment> \<open>\<open>Inl m\<close> is \<^verbatim>\<open>throw new Error(m)\<close>\<close>
  "listDevices E w =
     (let (result, w1) = exec E [''devices'', ''-l''] 30000 w in
      if \<not> success result then (Inl (''Failed to list devices: '' @ stderr result), w1)
      else (Inr (deviceLoop (drop 1 (splitOn CHR 0x0A (stdout result)))), w1))"

definition selectDevice :: "string option \<Rightarrow> 'd world \<Rightarrow> 'd world" where
  "selectDevice serial w = w\<lparr> selectedDevice := serial \<rparr>"

definition isReady :: "Device \<Rightarrow> bool" where
  \<comment> \<open>\<^verbatim>\<open>d.state === 'device'\<close>\<close>
  "isReady d = (d_state d = ''device'')"

fun readProps :: "'d env \<Rightarrow> string list \<Rightarrow> 'd world \<Rightarrow> string list \<times> 'd world" where
  \<comment> \<open>the loop over \<^verbatim>\<open>props\<close> in \<^verbatim>\<open>getDeviceInfo\<close>: the values read, in order\<close>
  "readProps E [] w = ([], w)"
| "readProps E (prop # ps) w =
     (let (result, w1) = shell E (''getprop '' @ prop) w;
          v = (if success result then stdout result else []);
          (vs, w2) = readProps E ps w1
      in (v # vs, w2))"

definition deviceProps :: "string list" where
  "deviceProps = [''ro.product.model'', ''ro.product.brand'', ''ro.product.manufacturer'',
                  ''ro.build.version.release'', ''ro.build.version.sdk'', ''ro.build.id'']"

definition getDeviceInfo :: "'d env \<Rightarrow> 'd world \<Rightarrow> (string + DeviceInfo) \<times> 'd world" where
  "getDeviceInfo E w =
     (let (failure, w1) =
            (if \<not> truthyStr (selectedDevice w) then
               (case listDevices E w of
                  (Inl m, v) \<Rightarrow> (Some m, v)
                | (Inr devs, v) \<Rightarrow>
                    let connectedDevices = filter isReady devs in
                    if length connectedDevices = 0 then (Some ''No devices connected'', v)
                    else if length connectedDevices > 1 then
                      (Some ''Multiple devices connected. Please select a device first.'', v)
                    else (None, selectDevice (Some (d_serial (connectedDevices ! 0))) v))
             else (None, w))
      in (case failure of
            Some m \<Rightarrow> (Inl m, w1)
          | None \<Rightarrow>
              let (vs, w2) = readProps E deviceProps w1 in
              (Inr \<lparr> i_serial = selectedDevice w2,
                     i_model = orElse (Some (vs ! 0)) ''Unknown'',
                     i_brand = orElse (Some (vs ! 1)) ''Unknown'',
                     i_manufacturer = orElse (Some (vs ! 2)) ''Unknown'',
                     i_androidVersion = orElse (Some (vs ! 3)) ''Unknown'',
                     i_sdkVersion = parseInt (orElse (Some (vs ! 4)) ''0''),
                     i_buildId = orElse (Some (vs ! 5)) ''Unknown'' \<rparr>, w2)))"

fun cacheLoop :: "'d env \<Rightarrow> Device list \<Rightarrow> 'd world \<Rightarrow> 'd world" where
  \<comment> \<open>the first loop of \<^verbatim>\<open>refreshDevices\<close>; an error of \<^verbatim>\<open>getDeviceInfo\<close> is caught and
      dropped, what it did before stays done\<close>
  "cacheLoop E [] w = w"
| "cacheLoop E (device # ds) w =
     (if isReady device \<and> d_serial device \<notin> fst ` set (devices w) then
        (let w1 = selectDevice (Some (d_serial device)) w in
         case getDeviceInfo E w1 of
           (Inr info, w2) \<Rightarrow>
             cacheLoop E ds (w2\<lparr> devices := devices w2 @ [(d_serial device, info)] \<rparr>)
         | (Inl m, w2) \<Rightarrow> cacheLoop E ds w2)
      else cacheLoop E ds w)"

definition refreshDevices :: "'d env \<Rightarrow> 'd world \<Rightarrow> (string + Device list) \<times> 'd world" where
  "refreshDevices E w =
     (case listDevices E w of
        (Inl m, w1) \<Rightarrow> (Inl m, w1)
      | (Inr devs, w1) \<Rightarrow>
          let w2 = cacheLoop E devs w1;
              connectedSerials = set (map d_serial devs);
              w3 = w2\<lparr> devices := filter (\<lambda>kv. fst kv \<in> connectedSerials) (devices w2) \<rparr>;
              currentSelection = selectedDevice w3;
              w4 = (case currentSelection of
                      Some s \<Rightarrow> if s \<noteq> [] \<and> s \<notin> connectedSerials then selectDevice None w3 else w3
                    | None \<Rightarrow> w3)
          in (Inr devs, w4))"

definition ensureAfterRefresh :: "'d env \<Rightarrow> 'd world \<Rightarrow> (string + string) \<times> 'd world" where
  \<comment> \<open>\<^verbatim>\<open>ensureDeviceSelected\<close> from its call of \<^verbatim>\<open>refreshDevices\<close> on\<close>
  "ensureAfterRefresh E w =
     (case refreshDevices E w of
        (Inl m, w1) \<Rightarrow> (Inl m, w1)
      | (Inr devs, w1) \<Rightarrow>
          let connectedDevices = filter isReady devs in
          if length connectedDevices = 0 then
            (Inl ''No Android devices connected. Please connect a device with USB debugging enabled.'',
             w1)
          else if length connectedDevices > 1 then
            (Inl (''Multiple devices connected: '' @
                  joinWith '', '' (map d_serial connectedDevices) @ ''. '' @
                  ''Please select a device using device_select.''), w1)
          else (Inr (d_serial (connectedDevices ! 0)),
                selectDevice (Some (d_serial (connectedDevices ! 0))) w1))"

definition ensureDeviceSelected :: "'d env \<Rightarrow> 'd world \<Rightarrow> (string + string) \<times> 'd world" where
  "ensureDeviceSelected E w =
     (case selectedDevice w of
        Some s \<Rightarrow> if s \<noteq> [] then (Inr s, w) else ensureAfterRefresh E w
      | None \<Rightarrow> ensureAfterRefresh E w)"

definition noDeviceMessage :: string where
  \<comment> \<open>the message of the error thrown when no ready device is found\<close>
  "noDeviceMessage = ''No Android devices connected. Please connect a device with USB debugging enabled.''"

section \<open>A device with a result file\<close>

text \<open>
  An outside world for the enterprise exchange: the shared storage of the device holds the
  result file, the companion app (or anyone else) may write it between two commands, and a
  command may fail to reach the device. \<open>steps\<close> counts the commands seen so far. Just
  before command number \<open>n\<close> runs, \<open>agentWrites d n\<close> (when it is \<open>Some c\<close>) replaces the
  result file by \<open>c\<close>; the file remembers the number of the step that wrote it. Command
  \<open>n\<close> reaches the device when \<open>delivered d n\<close>; then \<^verbatim>\<open>rm -f\<close> removes the file, \<^verbatim>\<open>cat\<close>
  prints it (and fails when there is none), and any other command prints \<open>otherOutput d n\<close>.
\<close>

record device =
  resultFile :: "(nat \<times> string) option"
  steps :: nat
  agentWrites :: "nat \<Rightarrow> string option"
  delivered :: "nat \<Rightarrow> bool"
  duration :: "nat \<Rightarrow> nat"
  otherOutput :: "nat \<Rightarrow> string"

definition endsWith :: "string \<Rightarrow> string \<Rightarrow> bool" where
  \<comment> \<open>\<open>endsWith n h\<close>: the text \<open>h\<close> ends with \<open>n\<close>\<close>
  "endsWith n h = startsWith (rev n) (rev h)"

definition failedCommand :: "string \<Rightarrow> ExecError" where
  "failedCommand msg = \<lparr> err_stdout = Some [], err_stderr = Some msg, err_code = Some 1,
     err_message = Some ''Command failed'', killed = False, signal = None \<rparr>"

definition deviceEnv :: "device env" where
  "deviceEnv command timeout now d =
     (let n = steps d;
          file = (case agentWrites d n of Some c \<Rightarrow> Some (n, c) | None \<Rightarrow> resultFile d);
          d1 = d\<lparr> steps := n + 1, resultFile := file \<rparr>
      in if \<not> delivered d n then
           (Rejected (failedCommand ''error: device offline''), duration d n, d1)
         else if endsWith (''shell '' @ rmResultCommand) command then
           (Resolved [] [], duration d n, d1\<lparr> resultFile := None \<rparr>)
         else if endsWith (''shell '' @ catResultCommand) command then
           (case file of
              Some tc \<Rightarrow> (Resolved (snd tc) [], duration d n, d1)
            | None \<Rightarrow> (Rejected (failedCommand []), duration d n, d1))
         else (Resolved (otherOutput d n) [], duration d n, d1))"

definition freshAfter :: "nat \<Rightarrow> (nat \<Rightarrow> string option) \<Rightarrow> string \<Rightarrow> bool" where
  \<comment> \<open>\<open>freshAfter n A s\<close>: \<open>s\<close> is the trimmed content of a write made after step \<open>n\<close>\<close>
  "freshAfter n A s = (\<exists>k c. n < k \<and> A k = Some c \<and> s = trim c)"

definition pollInvariant :: "nat \<Rightarrow> device \<Rightarrow> device world \<Rightarrow> bool" where
  \<comment> \<open>after command \<open>n\<close> removed the result file of \<open>d0\<close>: the file is absent or was written
      after step \<open>n\<close>\<close>
  "pollInvariant n d0 w =
     (agentWrites (dev w) = agentWrites d0 \<and> delivered (dev w) = delivered d0 \<and>
      n < steps (dev w) \<and>
      (case resultFile (dev w) of
         None \<Rightarrow> True
       | Some tc \<Rightarrow> n < fst tc \<and> agentWrites d0 (fst tc) = Some (snd tc)))"

section \<open>Sample inputs\<close>

text \<open>Scan listings: a header, a well-formed line and lines with a malformed token.\<close>

definition sampleScan :: string where
  "sampleScan = ''BSSID Frequency RSSI Age SSID Flags'' @ [CHR 0x0A] @
     ''84:18:3a:06:be:58 2412 -51 17.210 HomeNet [WPA2-PSK-CCMP][RSN-PSK-CCMP][ESS]'' @ [CHR 0x0A] @
     ''not-a-mac 2412 -51 17.210 Other [ESS]''"

definition sampleWpa3Line :: string where
  "sampleWpa3Line = ''84:18:3a:06:be:58 5180 -40 1.5 Lab [WPA2-PSK-CCMP][RSN-SAE-CCMP][ESS]''"

definition badFreqLine :: string where
  "badFreqLine = ''84:18:3a:06:be:58 24x2 -51 17.210 HomeNet [ESS]''"

text \<open>
  The error Node rejects with when the timeout ends \<^verbatim>\<open>adb shell sleep 100\<close>, and the error
  for the same command ended by a signal sent from elsewhere.
\<close>

definition timeoutError :: ExecError where
  "timeoutError = \<lparr> err_stdout = Some [], err_stderr = Some [], err_code = None,
      err_message = Some (''Command failed: adb shell sleep 100'' @ [CHR 0x0A]),
      killed = True, signal = Some ''SIGTERM'' \<rparr>"

definition signalError :: ExecError where
  "signalError = timeoutError \<lparr> killed := False \<rparr>"

definition stubEnv :: "ExecError \<Rightarrow> unit env" where
  \<comment> \<open>every command is rejected with the error \<open>e\<close>\<close>
  "stubEnv e = (\<lambda>command timeout now d. (Rejected e, timeout, d))"

definition world0 :: "unit world" where
  "world0 = \<lparr> adbPath = ''adb'', selectedDevice = None, devices = [], clock = 0, log = [], dev = () \<rparr>"

text \<open>Status dumps: an empty quoted ssid, the absence marker before a carriage return, a
  connected network; and an environment that answers the commands of \<^verbatim>\<open>connect\<close>.\<close>

definition dumpEmpty :: string where
  "dumpEmpty = ''mWifiInfo SSID: '' @ [CHR 0x22, CHR 0x22] @ '', BSSID: 02:00:00:00:00:00, RSSI: -55''"

definition dumpNone :: string where
  "dumpNone = ''mWifiInfo SSID: <none>'' @ [CHR 0x0D, CHR 0x0A] @ ''Wi-Fi is enabled''"

definition dumpHome :: string where
  "dumpHome = ''mWifiInfo SSID: '' @ [CHR 0x22] @ ''HomeNet'' @ [CHR 0x22] @
     '', BSSID: 84:18:3a:06:be:58, Supplicant state: COMPLETED, RSSI: -55''"

definition homeEnv :: "unit env" where
  "homeEnv = (\<lambda>command timeout now d.
     if includesStr ''dumpsys'' command then (Resolved dumpHome [], 5, d)
     else if includesStr ''connect-network'' command then (Resolved ''Connection initiated'' [], 5, d)
     else (Resolved ''Wifi is enabled'' [], 5, d))"

text \<open>Enterprise requests, and a stand-in for the JSON library that accepts a text
  beginning with a brace and returns it as the value.\<close>

definition peapNoPassword :: EapConfig where
  "peapNoPassword = \<lparr> eap_ssid = ''CorpNet'', eapMethod = Peap, phase2Method = Some Mschapv2,
     identity = ''alice'', password = None, anonymousIdentity = None,
     domainSuffixMatch = ''corp.example'', caCertificate = None, clientCertificate = None,
     privateKey = None, privateKeyPassword = None \<rparr>"

definition tlsNoKey :: EapConfig where
  "tlsNoKey = peapNoPassword \<lparr> eapMethod := Tls, clientCertificate := Some ''PEM'' \<rparr>"

definition peapConfig :: EapConfig where
  "peapConfig = peapNoPassword \<lparr> password := Some ''secret'' \<rparr>"

definition toyJson :: "string json" where
  "toyJson = \<lparr> json_stringify = (\<lambda>p. ''{}''),
               json_parse = (\<lambda>s. if startsWith ''{'' s then Some s else None),
               json_truthy = (\<lambda>v. True) \<rparr>"

text \<open>An answer of the primary resolver that names an IPv6 address; the other tiers fail.\<close>

definition v6Answer :: string where
  "v6Answer = ''Server: 8.8.8.8'' @ [CHR 0x0A] @ ''Address: 8.8.8.8#53'' @ [CHR 0x0A] @
     ''Name: example.com'' @ [CHR 0x0A] @ ''Address: 2001:db8::1''"

definition v6Env :: "unit env" where
  "v6Env = (\<lambda>command timeout now d.
     if includesStr ''nslookup'' command then (Resolved v6Answer [], 20, d)
     else (Rejected \<lparr> err_stdout = Some [], err_stderr = Some ''not found'', err_code = Some 1,
                      err_message = Some ''Command failed'', killed = False, signal = None \<rparr>, 20, d))"

text \<open>Device listings with two, one and no ready device; every property read prints 13.\<close>

definition devicesListing :: string where
  "devicesListing = ''List of devices attached'' @ [CHR 0x0A] @
     ''emulator-5554 device product:sdk_gphone model:Pixel_6 transport_id:1'' @ [CHR 0x0A] @
     ''R58M123 device product:a52 model:SM_A525F transport_id:2''"

definition twoDevicesEnv :: "unit env" where
  "twoDevicesEnv = (\<lambda>command timeout now d.
     if includesStr ''devices -l'' command then (Resolved devicesListing [], 3, d)
     else (Resolved ''13'' [], 1, d))"

definition oneDeviceEnv :: "unit env" where
  "oneDeviceEnv = (\<lambda>command timeout now d.
     if includesStr ''devices -l'' command
     then (Resolved (''List of devices attached'' @ [CHR 0x0A] @ ''R58M123 device'' @ [CHR 0x0A] @
                     ''R58M999 offline'') [], 3, d)
     else (Resolved ''13'' [], 1, d))"

definition noDeviceEnv :: "unit env" where
  "noDeviceEnv = (\<lambda>command timeout now d. (Resolved ''List of devices attached'' [], 3, d))"

definition twoDevices :: "Device list" where
  "twoDevices =
     [\<lparr> d_serial = ''emulator-5554'', d_state = ''device'', d_product = Some ''sdk_gphone'',
        d_model = Some ''Pixel_6'', d_device = None, d_transportId = Some ''1'' \<rparr>,
      \<lparr> d_serial = ''R58M123'', d_state = ''device'', d_product = Some ''a52'',
        d_model = Some ''SM_A525F'', d_device = None, d_transportId = Some ''2'' \<rparr>]"

text \<open>
  Devices for the enterprise exchange. Both hold a result file left by an earlier request
  and have seen one command. On \<open>staleDevice\<close> command number 4 fails to reach the device
  and nothing writes the result file; on \<open>freshDevice\<close> every command arrives and the
  companion app writes its answer just before command number 5.
\<close>

definition staleJson :: string where
  "staleJson = ''{'' @ [CHR 0x22] @ ''success'' @ [CHR 0x22] @ '':true,'' @
     [CHR 0x22] @ ''ssid'' @ [CHR 0x22] @ '':'' @ [CHR 0x22] @ ''OldNet'' @ [CHR 0x22] @ ''}''"

definition freshJson :: string where
  "freshJson = ''{'' @ [CHR 0x22] @ ''success'' @ [CHR 0x22] @ '':false,'' @
     [CHR 0x22] @ ''ssid'' @ [CHR 0x22] @ '':'' @ [CHR 0x22] @ ''CorpNet'' @ [CHR 0x22] @ ''}''"

definition staleDevice :: device where
  "staleDevice = \<lparr> resultFile = Some (0, staleJson), steps = 1,
     agentWrites = (\<lambda>n. None), delivered = (\<lambda>n. n \<noteq> 4), duration = (\<lambda>n. 10),
     otherOutput = (\<lambda>n. ''package:com.example.wifimcpcompanion'') \<rparr>"

definition freshDevice :: device where
  "freshDevice = staleDevice \<lparr> agentWrites := (\<lambda>n. if n = 5 then Some freshJson else None),
     delivered := (\<lambda>n. True) \<rparr>"

definition deviceWorld :: "device \<Rightarrow> device world" where
  "deviceWorld d = \<lparr> adbPath = ''adb'', selectedDevice = None, devices = [], clock = 0, log = [],
     dev = d \<rparr>"

section \<open>Properties of the scan-result parser\<close>

lemma bssidPattern_unfold: "bssidPattern s = hexGroups (Suc (Suc (Suc (Suc (Suc 0))))) s"
  by (simp add: bssidPattern_def eval_nat_numeral)

lemma splitWs_hd: "splitWs s \<noteq> [] \<and> hd (splitWs s) = takeWhile (\<lambda>c. \<not> isWs c) s"
  by (induction s rule: splitWs.induct) (auto split: list.splits)

lemma splitWs_no_ws: "\<forall>c\<in>set s. \<not> isWs c \<Longrightarrow> splitWs s = [s]"
  by (induction s) auto

lemma trim_decomp:
  "\<exists>pre post. s = pre @ trim s @ post \<and> (\<forall>c\<in>set pre. isWs c) \<and> (\<forall>c\<in>set post. isWs c)"
proof -
  let ?d = "dropWhile isWs s"
  have a: "s = takeWhile isWs s @ ?d" by simp
  have "?d = rev (rev ?d)" by simp
  also have "\<dots> = rev (takeWhile isWs (rev ?d) @ dropWhile isWs (rev ?d))"
    by (simp only: takeWhile_dropWhile_id)
  also have "\<dots> = rev (dropWhile isWs (rev ?d)) @ rev (takeWhile isWs (rev ?d))"
    by (rule rev_append)
  finally have b: "?d = trim s @ rev (takeWhile isWs (rev ?d))"
    by (simp only: trim_def)
  have c: "\<forall>c\<in>set (takeWhile isWs s). isWs c" by (auto dest: set_takeWhileD)
  have d: "\<forall>c\<in>set (rev (takeWhile isWs (rev ?d))). isWs c" by (auto dest: set_takeWhileD)
  from a b have "s = takeWhile isWs s @ trim s @ rev (takeWhile isWs (rev ?d))" by simp
  with c d show ?thesis by blast
qed

lemma firstToken_decomp:
  assumes "\<forall>c\<in>set pre. isWs c" "\<forall>c\<in>set p. \<not> isWs c" "p \<noteq> []" "isWs w"
  shows "firstToken (pre @ p @ w # z) = p"
proof -
  from assms(2,3) obtain a q where p: "p = a # q" and a: "\<not> isWs a" by (cases p) auto
  have "dropWhile isWs (pre @ p @ w # z) = p @ w # z"
    using assms(1) a by (simp add: p dropWhile_append2)
  moreover have "takeWhile (\<lambda>c. \<not> isWs c) (p @ w # z) = p"
    using assms(2,4) by (simp add: takeWhile_append2)
  ultimately show ?thesis by (simp add: firstToken_def)
qed

lemma hexGroups_no_ws: "hexGroups n s \<Longrightarrow> s \<noteq> [] \<and> (\<forall>c\<in>set s. \<not> isWs c)"
  by (induction n s rule: hexGroups.induct) (auto split: list.splits simp: isHex_def isWs_def)

lemma mainPartOf_eq: "mainPartOf line = takeWhile (\<lambda>x. x \<noteq> CHR ''['') line"
proof (cases "CHR ''['' \<in> set line")
  case True
  then show ?thesis by (simp add: mainPartOf_def indexOf_def takeWhile_eq_take[symmetric])
next
  case False
  then have h: "takeWhile (\<lambda>x. x \<noteq> CHR ''['') line = line" by (auto simp: takeWhile_eq_all_conv)
  have "mainPartOf line = line" using False by (simp add: mainPartOf_def indexOf_def)
  with h show ?thesis by (simp only:)
qed

lemma parseScanLine_bssid:
  assumes "parseScanLine raw = Some r"
  shows "sr_bssid r = firstToken raw \<and> bssidPattern (sr_bssid r)"
proof -
  let ?line = "trim raw"
  let ?m = "mainPartOf ?line"
  let ?parts = "splitWs (trim ?m)"
  let ?p = "takeWhile (\<lambda>c. \<not> isWs c) (trim ?m)"
  from assms have len: "3 \<le> length ?parts" and pat: "bssidPattern (?parts ! 0)"
    and br: "sr_bssid r = ?parts ! 0"
    by (auto simp: parseScanLine_def Let_def split: if_splits)
  have p0: "?parts ! 0 = ?p" using splitWs_hd[of "trim ?m"] by (cases "splitWs (trim ?m)") auto
  from pat p0 have nws: "?p \<noteq> [] \<and> (\<forall>c\<in>set ?p. \<not> isWs c)"
    using hexGroups_no_ws by (simp add: bssidPattern_def)
  have "\<exists>c\<in>set (trim ?m). isWs c"
  proof (rule ccontr)
    assume "\<not> ?thesis"
    then have "splitWs (trim ?m) = [trim ?m]" using splitWs_no_ws by blast
    with len show False by simp
  qed
  then have "dropWhile (\<lambda>c. \<not> isWs c) (trim ?m) \<noteq> []" by auto
  then obtain w z where wz: "dropWhile (\<lambda>c. \<not> isWs c) (trim ?m) = w # z" by (cases "dropWhile (\<lambda>c. \<not> isWs c) (trim ?m)") auto
  then have w: "isWs w" using hd_dropWhile[of "\<lambda>c. \<not> isWs c" "trim ?m"] by auto
  have tm: "trim ?m = ?p @ w # z" using wz takeWhile_dropWhile_id[of "\<lambda>c. \<not> isWs c" "trim ?m"] by simp
  obtain pre1 post1 where m: "?m = pre1 @ trim ?m @ post1" and pre1: "\<forall>c\<in>set pre1. isWs c"
    using trim_decomp[of ?m] by blast
  have "?line = ?m @ dropWhile (\<lambda>x. x \<noteq> CHR ''['') ?line" by (simp add: mainPartOf_eq)
  then obtain rest where line: "?line = ?m @ rest" ..
  obtain pre2 post2 where raw: "raw = pre2 @ ?line @ post2" and pre2: "\<forall>c\<in>set pre2. isWs c"
    using trim_decomp[of raw] by blast
  have "raw = (pre2 @ pre1) @ ?p @ w # (z @ post1 @ rest @ post2)"
    using raw line m tm by (metis append.assoc append_Cons)
  then have "firstToken raw = ?p"
    using firstToken_decomp[of "pre2 @ pre1" ?p w "z @ post1 @ rest @ post2"] pre1 pre2 nws w
    by auto
  with br p0 pat show ?thesis by simp
qed


lemma scanLoop_append: "scanLoop (xs @ ys) = scanLoop xs @ scanLoop ys"
  by (induction xs) (auto split: option.splits)

lemma scanLoop_length: "length (scanLoop ls) \<le> length ls"
  by (induction ls) (auto split: option.splits)

lemma scanLoop_length_strict:
  "l \<in> set ls \<Longrightarrow> parseScanLine l = None \<Longrightarrow> length (scanLoop ls) < length ls"
proof (induction ls)
  case Nil
  then show ?case by simp
next
  case (Cons a ls)
  have le: "length (scanLoop ls) \<le> length ls" by (rule scanLoop_length)
  show ?case
  proof (cases "l = a")
    case True
    with Cons.prems le show ?thesis by simp
  next
    case False
    with Cons have "length (scanLoop ls) < length ls" by simp
    then show ?thesis by (simp split: option.splits)
  qed
qed

lemma scanLoop_bssid: "r \<in> set (scanLoop ls) \<Longrightarrow> bssidPattern (sr_bssid r)"
  by (induction ls) (auto split: option.splits dest: parseScanLine_bssid)

lemma splitOn_nonempty: "splitOn c s \<noteq> []"
  by (induction s) (auto split: list.splits)

text \<open>
  Claim C2. A line whose first whitespace token is not a MAC address of six colon-separated
  hex pairs pushes no record (the turn of the loop returns nothing, and the output of the loop
  is the same as without that line); every record pushed has a \<open>sr_bssid\<close> of that form;
  there are at most as many records as input lines, and fewer when some line is malformed.
\<close>

theorem scan_bssid_gate:
  "(\<not> bssidPattern (firstToken l) \<longrightarrow>
      parseScanLine l = None \<and> scanLoop (xs @ l # ys) = scanLoop (xs @ ys))
   \<and> (\<forall>r\<in>set (parseScanResults out). bssidPattern (sr_bssid r))
   \<and> length (parseScanResults out) \<le> length (splitOn CHR 0x0A out)
   \<and> ((\<exists>l\<in>set (splitOn CHR 0x0A out). \<not> bssidPattern (firstToken l)) \<longrightarrow>
        length (parseScanResults out) < length (splitOn CHR 0x0A out))"
proof (intro conjI impI ballI)
  assume bad: "\<not> bssidPattern (firstToken l)"
  show none: "parseScanLine l = None"
  proof (cases "parseScanLine l")
    case (Some r)
    from parseScanLine_bssid[OF Some] bad show ?thesis by auto
  qed simp
  show "scanLoop (xs @ l # ys) = scanLoop (xs @ ys)"
    using none by (simp add: scanLoop_append)
next
  fix r assume "r \<in> set (parseScanResults out)"
  then show "bssidPattern (sr_bssid r)"
    by (auto simp: parseScanResults_def Let_def dest: scanLoop_bssid)
next
  have "length (parseScanResults out) \<le> length (drop (case splitOn CHR 0x0A out of l0 # _ \<Rightarrow> if includesStr ''BSSID'' l0 then 1 else 0 | [] \<Rightarrow> (0::nat)) (splitOn CHR 0x0A out))"
    unfolding parseScanResults_def Let_def by (rule scanLoop_length)
  then show "length (parseScanResults out) \<le> length (splitOn CHR 0x0A out)" by simp
next
  let ?lines = "splitOn CHR 0x0A out"
  assume "\<exists>l\<in>set ?lines. \<not> bssidPattern (firstToken l)"
  then obtain l where l: "l \<in> set ?lines" and bad: "\<not> bssidPattern (firstToken l)" by blast
  have none: "parseScanLine l = None"
  proof (cases "parseScanLine l")
    case (Some r)
    from parseScanLine_bssid[OF Some] bad show ?thesis by auto
  qed simp
  obtain l0 rest where lines: "?lines = l0 # rest"
    using splitOn_nonempty[of "CHR 0x0A" out] by (cases ?lines) auto
  show "length (parseScanResults out) < length ?lines"
  proof (cases "includesStr ''BSSID'' l0")
    case True
    then have "parseScanResults out = scanLoop rest"
      by (simp add: parseScanResults_def Let_def lines)
    then show ?thesis using scanLoop_length[of rest] by (simp add: lines)
  next
    case False
    then have "parseScanResults out = scanLoop ?lines"
      by (simp add: parseScanResults_def Let_def lines)
    then show ?thesis using scanLoop_length_strict[OF l none] by simp
  qed
qed

lemma isWs_simps: "isWs c = (c = CHR 0x09 \<or> c = CHR 0x0A \<or> c = CHR 0x0B \<or> c = CHR 0x0C \<or> c = CHR 0x0D \<or> c = CHR '' '' \<or> c = CHR 0xA0)"
  by (simp add: isWs_def)


theorem scan_bssid_gate_witness:
  "\<not> bssidPattern (firstToken ''not-a-mac 2412 -51 17.210 Other [ESS]'')
   \<and> parseScanLine ''not-a-mac 2412 -51 17.210 Other [ESS]'' = None
   \<and> ''not-a-mac 2412 -51 17.210 Other [ESS]'' \<in> set (splitOn CHR 0x0A sampleScan)
   \<and> length (parseScanResults sampleScan) < length (splitOn CHR 0x0A sampleScan)
   \<and> parseScanResults sampleScan \<noteq> []
   \<and> bssidPattern (sr_bssid (hd (parseScanResults sampleScan)))"
proof -
  have bad: "\<not> bssidPattern (firstToken ''not-a-mac 2412 -51 17.210 Other [ESS]'')"
    by (simp add: firstToken_def isWs_simps bssidPattern_unfold)
  have mem: "''not-a-mac 2412 -51 17.210 Other [ESS]'' \<in> set (splitOn CHR 0x0A sampleScan)"
    by (simp add: sampleScan_def)
  have ne: "parseScanResults sampleScan \<noteq> []"
    by (simp add: sampleScan_def parseScanResults_def parseScanLine_def Let_def isWs_simps trim_def
        mainPartOf_def flagsPartOf_def indexOf_def bssidPattern_unfold isHex_def)
  from scan_bssid_gate[of "''not-a-mac 2412 -51 17.210 Other [ESS]''" "[]" "[]" sampleScan] bad mem ne
  show ?thesis by (meson hd_in_set)
qed

lemma flagsPartOf_eq: "flagsPartOf line = dropWhile (\<lambda>x. x \<noteq> CHR ''['') line"
proof (cases "CHR ''['' \<in> set line")
  case True
  then show ?thesis by (simp add: flagsPartOf_def indexOf_def dropWhile_eq_drop[symmetric])
next
  case False
  then have "dropWhile (\<lambda>x. x \<noteq> CHR ''['') line = []" by auto
  moreover have "flagsPartOf line = []" using False by (simp add: flagsPartOf_def indexOf_def)
  ultimately show ?thesis by (simp only:)
qed

lemma securityOf_firstMatch: "securityOf f = firstMatchLabel f"
  by (cases f) (simp_all add: securityOf_def firstMatchLabel_def securityPriority_def)

lemma parseScanLine_security:
  "parseScanLine l = Some r \<Longrightarrow> sr_security r = securityOf (flagsPartOf (trim l))"
  by (auto simp: parseScanLine_def Let_def split: if_splits)

text \<open>
  Claim C3. The label of a pushed record is the label of the first marker, in the order
  SAE, WPA3, WPA2, WPA, WEP, OWE, that occurs in the bracketed suffix of the line, and
  \<open>Open\<close> when none occurs. A suffix holding a WPA2 marker together with an SAE or WPA3
  marker is labelled SAE or WPA3, never WPA2.
\<close>

theorem security_priority:
  assumes "parseScanLine l = Some r"
  shows "sr_security r = firstMatchLabel (capabilitySuffix l)
    \<and> (includesStr ''SAE'' (capabilitySuffix l) \<longrightarrow> sr_security r = ''SAE'')
    \<and> (includesStr ''WPA3'' (capabilitySuffix l) \<longrightarrow>
          sr_security r = ''SAE'' \<or> sr_security r = ''WPA3'')
    \<and> (includesStr ''WPA2'' (capabilitySuffix l) \<and>
        (includesStr ''SAE'' (capabilitySuffix l) \<or> includesStr ''WPA3'' (capabilitySuffix l)) \<longrightarrow>
          (sr_security r = ''SAE'' \<or> sr_security r = ''WPA3'') \<and> sr_security r \<noteq> ''WPA2'')"
proof -
  have s: "sr_security r = securityOf (capabilitySuffix l)"
    using parseScanLine_security[OF assms] by (simp add: flagsPartOf_eq capabilitySuffix_def)
  have a: "sr_security r = firstMatchLabel (capabilitySuffix l)"
    using s by (simp add: securityOf_firstMatch)
  have b: "includesStr ''SAE'' (capabilitySuffix l) \<longrightarrow> sr_security r = ''SAE''"
    using s by (cases "capabilitySuffix l") (simp_all add: securityOf_def)
  have c: "includesStr ''WPA3'' (capabilitySuffix l) \<longrightarrow>
          sr_security r = ''SAE'' \<or> sr_security r = ''WPA3''"
    using s by (cases "capabilitySuffix l") (simp_all add: securityOf_def)
  from a b c show ?thesis by auto
qed

lemmas scan_eval = parseScanLine_def Let_def isWs_simps trim_def
        mainPartOf_def flagsPartOf_def indexOf_def bssidPattern_unfold isHex_def
        frequencyPattern_def rssiPattern_def isDigit_def parseInt_def doubleOf_def digitsVal_def digitVal_def
        securityOf_def

lemma sampleWpa3_parse:
  "parseScanLine sampleWpa3Line =
     Some \<lparr> sr_ssid = ''Lab'', sr_bssid = ''84:18:3a:06:be:58'', sr_frequency = Num 5180, sr_rssi = Num (- 40),
            sr_security = ''SAE'' \<rparr>"
  by (simp add: sampleWpa3Line_def scan_eval)

theorem security_priority_witness:
  "parseScanLine sampleWpa3Line =
     Some \<lparr> sr_ssid = ''Lab'', sr_bssid = ''84:18:3a:06:be:58'', sr_frequency = Num 5180, sr_rssi = Num (- 40),
            sr_security = ''SAE'' \<rparr>
   \<and> includesStr ''WPA2'' (capabilitySuffix sampleWpa3Line)
   \<and> includesStr ''SAE'' (capabilitySuffix sampleWpa3Line)
   \<and> firstMatchLabel (capabilitySuffix sampleWpa3Line) = ''SAE''"
proof -
  have w2: "includesStr ''WPA2'' (capabilitySuffix sampleWpa3Line)"
    by (simp add: capabilitySuffix_def sampleWpa3Line_def trim_def isWs_simps)
  have sae: "includesStr ''SAE'' (capabilitySuffix sampleWpa3Line)"
    by (simp add: capabilitySuffix_def sampleWpa3Line_def trim_def isWs_simps)
  from security_priority[OF sampleWpa3_parse] w2 sae sampleWpa3_parse
  show ?thesis by simp
qed

lemma scenario_C:
  "parseScanLine ''84:18:3a:06:be:58 2412 -51 17.210 HomeNet [WPA2-PSK-CCMP][RSN-PSK-CCMP][ESS]'' =
     Some \<lparr> sr_ssid = ''HomeNet'', sr_bssid = ''84:18:3a:06:be:58'', sr_frequency = Num 2412,
            sr_rssi = Num (- 51), sr_security = ''WPA2'' \<rparr>"
  by (simp add: scan_eval)

section \<open>Properties of the command executor\<close>

lemma orElse_nonempty: "b \<noteq> [] \<Longrightarrow> orElse a b \<noteq> []"
  by (simp add: orElse_def split: option.splits)

lemma exec_result:
  "fst (exec E args t w) = adbResultOf (fst (E (commandLine w args) t (clock w) (dev w)))"
  by (simp add: exec_def Let_def split: prod.splits)

text \<open>
  Claim C1, as the code has it. \<^verbatim>\<open>exec\<close>, and \<^verbatim>\<open>shell\<close> through it, returns a result
  for every outcome of the underlying call. For a rejected call that result has
  \<open>success = False\<close>, a non-empty \<open>stderr\<close> (the captured error stream trimmed, else the
  message of the error, else \<^verbatim>\<open>Unknown error\<close>) and a non-zero exit code (the code of the
  error, else 1). Whether the call was ended by the timeout does not enter the result: a
  timeout is reported like any other rejection.
\<close>

theorem exec_failure_result:
  "fst (exec E args t w) = adbResultOf (fst (E (commandLine w args) t (clock w) (dev w)))
   \<and> shellT E c t w = exec E [''shell'', c] t w
   \<and> shell E c w = exec E [''shell'', c] 30000 w
   \<and> adbResultOf (Resolved out err) =
       \<lparr> success = True, stdout = trim out, stderr = trim err, exitCode = 0 \<rparr>
   \<and> \<not> success (adbResultOf (Rejected e))
   \<and> stderr (adbResultOf (Rejected e)) =
       orElse (map_option trim (err_stderr e)) (orElse (err_message e) ''Unknown error'')
   \<and> stderr (adbResultOf (Rejected e)) \<noteq> []
   \<and> exitCode (adbResultOf (Rejected e)) =
       (case err_code e of Some c \<Rightarrow> if c \<noteq> 0 then c else 1 | None \<Rightarrow> 1)
   \<and> exitCode (adbResultOf (Rejected e)) \<noteq> 0
   \<and> adbResultOf (Rejected (e\<lparr> killed := k, signal := sg \<rparr>)) = adbResultOf (Rejected e)"
  by (simp add: exec_result shellT_def shell_def adbResultOf_def orElse_nonempty split: option.splits)

text \<open>
  Claim C1 as stated asks for a marker in \<open>stderr\<close> that is specific to a timeout. A
  command ended by the timeout and the same command ended by a signal from elsewhere give
  the same result, whose \<open>stderr\<close> is the generic message of the failed command.
\<close>

theorem exec_timeout_marker_counterexample:
  "killed timeoutError \<and> \<not> killed signalError
   \<and> fst (shellT (stubEnv timeoutError) ''sleep 100'' 30000 world0) =
       \<lparr> success = False, stdout = [],
         stderr = ''Command failed: adb shell sleep 100'' @ [CHR 0x0A], exitCode = 1 \<rparr>
   \<and> fst (shellT (stubEnv signalError) ''sleep 100'' 30000 world0) =
       fst (shellT (stubEnv timeoutError) ''sleep 100'' 30000 world0)"
  by (simp add: timeoutError_def signalError_def stubEnv_def world0_def shellT_def exec_def commandLine_def
      adbResultOf_def orElse_def truthyStr_def trim_def)

section \<open>Properties of the status and saved-network parsers\<close>

lemmas rx_eval = lit_def ci_def cs_def plus_def isQuote_def
  isDotDigit_def isHexColon_def isHex_def isDigit_def lower_def group1_def matchStart_def
  isWs_def Let_def trim_def

text \<open>
  Claim C4 at the failing inputs. The comparison with \<^verbatim>\<open><none>\<close> is made on the captured
  text before it is trimmed: a dump with an empty quoted ssid yields the empty ssid, and
  a dump where the marker is followed by a carriage return yields the marker itself. Only
  the bare marker is left unset.
\<close>

theorem status_ssid_sentinel_returned:
  "st_ssid (parseStatus ''Wifi is enabled'' dumpEmpty) = Some []
   \<and> st_ssid (parseStatus ''Wifi is enabled'' dumpNone) = Some ''<none>''
   \<and> st_ssid (parseStatus ''Wifi is enabled'' ''mWifiInfo SSID: <none>'') = None"
  by (simp add: parseStatus_def dumpEmpty_def dumpNone_def statusSsidRx_def rx_eval)

lemma ms_keeps: "(s', c') \<in> set (ms r s c) \<Longrightarrow> c \<noteq> None \<Longrightarrow> c' \<noteq> None"
proof (induction r s c arbitrary: s' c' rule: ms.induct)
  case (6 p s c)
  then show ?case by (cases s) (auto split: if_splits)
qed (auto split: list.splits if_splits)

lemma captures_Grp: "captures (Grp a)"
  by (auto simp: captures_def)

lemma captures_Seq1: "captures a \<Longrightarrow> captures (Seq a b)"
  unfolding captures_def by (auto dest: ms_keeps)

lemma captures_Seq2: "captures b \<Longrightarrow> captures (Seq a b)"
  unfolding captures_def by auto

lemma search_captures: "captures r \<Longrightarrow> search r s \<noteq> Some None"
proof (induction s)
  case Nil
  then show ?case
    by (cases "ms r [] None") (auto simp: captures_def, metis list.set_intros(1))
next
  case (Cons x xs)
  then show ?case
    by (cases "ms r (x # xs) None") (auto simp: captures_def, metis list.set_intros(1))
qed

lemma group1_None: "captures r \<Longrightarrow> group1 (search r s) = None \<longleftrightarrow> search r s = None"
  using search_captures[of r s] by (auto simp: group1_def split: option.splits)

lemma captures_savedIdRx: "captures savedIdRx"
  unfolding savedIdRx_def seqs.simps
  by (intro captures_Seq2 captures_Seq1 captures_Grp)

lemma captures_savedSsidRx: "captures savedSsidRx"
  unfolding savedSsidRx_def seqs.simps
  by (intro captures_Seq2 captures_Seq1 captures_Grp)

lemma captures_status:
  "captures statusSsidRx" "captures statusBssidRx" "captures statusIpRx"
  "captures statusSpeedRx" "captures statusRssiRx" "captures statusFreqRx"
  unfolding statusSsidRx_def statusBssidRx_def statusIpRx_def statusSpeedRx_def
    statusRssiRx_def statusFreqRx_def seqs.simps
  by (intro captures_Seq2 captures_Seq1 captures_Grp)+

lemma digitVal_le: "digitVal c \<le> 9"
  by (simp add: digitVal_def)

lemma foldl_digits_bound:
  "foldl (\<lambda>a c. 10 * a + digitVal c) a ds < (a + 1) * 10 ^ length ds"
proof (induction ds arbitrary: a)
  case Nil
  then show ?case by simp
next
  case (Cons d ds)
  have "foldl (\<lambda>a c. 10 * a + digitVal c) (10 * a + digitVal d) ds
          < (10 * a + digitVal d + 1) * 10 ^ length ds"
    by (rule Cons.IH)
  also have "\<dots> \<le> (10 * a + 10) * 10 ^ length ds"
  proof (rule mult_le_mono1)
    show "10 * a + digitVal d + 1 \<le> 10 * a + 10" using digitVal_le[of d] by simp
  qed
  also have "\<dots> = (a + 1) * 10 ^ length (d # ds)" by (simp add: algebra_simps)
  finally show ?case by simp
qed

lemma digitsVal_bound: "digitsVal ds < 10 ^ length ds"
  using foldl_digits_bound[of 0 ds] by (simp add: digitsVal_def)

lemma parseInt_digits:
  assumes "ds \<noteq> []" "list_all isDigit ds"
  shows "parseInt ds = doubleOf False (digitsVal ds)"
proof -
  from assms obtain a r where ds: "ds = a # r" and a: "isDigit a" by (cases ds) auto
  from a have "\<not> isWs a" "a \<noteq> CHR ''-''" "a \<noteq> CHR ''+''"
    by (auto simp: isDigit_def isWs_def)
  moreover have "takeWhile isDigit ds = ds"
    using assms(2) by (simp add: takeWhile_eq_all_conv list_all_iff)
  ultimately show ?thesis using assms(1) by (simp add: parseInt_def ds Let_def)
qed

lemma parseInt_frequency:
  assumes "frequencyPattern t"
  shows "\<exists>k. parseInt t = Num k \<and> 0 \<le> k \<and> k < 100000"
proof -
  from assms have t: "t \<noteq> []" "list_all isDigit t" and len: "length t = 4 \<or> length t = 5"
    by (auto simp: frequencyPattern_def)
  from len digitsVal_bound[of t] have b: "digitsVal t < 100000" by auto
  then have "doubleOf False (digitsVal t) = Num (int (digitsVal t))" by (simp add: doubleOf_def)
  with parseInt_digits[OF t] b show ?thesis by simp
qed

lemma parseInt_rssi:
  assumes "rssiPattern t"
  shows "\<exists>k. parseInt t = Num k \<and> - 1000 < k \<and> k < 1000"
proof (cases t)
  case Nil
  with assms show ?thesis by (simp add: rssiPattern_def)
next
  case (Cons c r)
  show ?thesis
  proof (cases "c = CHR ''-''")
    case True
    with assms Cons have r: "r \<noteq> []" "list_all isDigit r" and len: "length r \<le> 3"
      by (auto simp: rssiPattern_def Let_def)
    then have tw: "takeWhile isDigit r = r" by (simp add: takeWhile_eq_all_conv list_all_iff)
    have "digitsVal r < 10 ^ length r" by (rule digitsVal_bound)
    also have "\<dots> \<le> 10 ^ 3" using len by (intro power_increasing) simp_all
    finally have b: "digitsVal r < 1000" by simp
    then have "doubleOf True (digitsVal r) = Num (- int (digitsVal r))" by (simp add: doubleOf_def)
    moreover have "parseInt t = doubleOf True (digitsVal r)"
      using r(1) by (simp add: parseInt_def Let_def isWs_def Cons True tw)
    ultimately show ?thesis using b by simp
  next
    case False
    with assms Cons have t: "t \<noteq> []" "list_all isDigit t" and len: "length t \<le> 3"
      by (auto simp: rssiPattern_def Let_def)
    have "digitsVal t < 10 ^ length t" by (rule digitsVal_bound)
    also have "\<dots> \<le> 10 ^ 3" using len by (intro power_increasing) simp_all
    finally have b: "digitsVal t < 1000" by simp
    then have "doubleOf False (digitsVal t) = Num (int (digitsVal t))" by (simp add: doubleOf_def)
    with parseInt_digits[OF t] b show ?thesis by simp
  qed
qed

text \<open>
  \<^verbatim>\<open>parseInt\<close> is exact up to \<open>2 ^ 53\<close> and rounds above it, as the double does.
\<close>

lemma parseInt_rounds:
  "parseInt ''9007199254740991'' = Num 9007199254740991
   \<and> parseInt ''9007199254740993'' = Num 9007199254740992
   \<and> parseInt ''-9007199254740995'' = Num (- 9007199254740996)"
  by (simp add: parseInt_def doubleOf_def roundHalfEven_def bitLength.simps digitsVal_def
      digitVal_def isDigit_def isWs_def Let_def)

lemma scanLoop_map_filter: "scanLoop ls = List.map_filter parseScanLine ls"
  by (induction ls) (simp_all add: map_filter_simps split: option.splits)

lemma savedLoop_map_filter: "savedLoop ls = List.map_filter parseSavedLine ls"
  by (induction ls) (simp_all add: map_filter_simps split: option.splits)

text \<open>
  Claim C9, as the code has it. The parsers are total. \<^verbatim>\<open>parseScanResults\<close> skips the first
  line of the output when it contains \<^verbatim>\<open>BSSID\<close> and returns, in order, the records of the
  other lines that are not dropped. A scan line is dropped exactly when it is blank, has fewer
  than three tokens before the bracket, or its first token is not a MAC address. The record
  of a line that is kept has the first token as bssid; the parsed number where the frequency
  (signal) token fits its pattern, an integer of at most five (three) digits, and 0 where it
  does not; as ssid the tokens from the fifth on, or \<^verbatim>\<open><hidden>\<close> when they are missing or
  blank; and the security label of the bracketed part. \<^verbatim>\<open>parseSavedNetworks\<close> returns, in
  order, the records of the lines that are not dropped; a saved-network line is dropped
  exactly when it is blank or has no id match; the record's id is \<^verbatim>\<open>parseInt\<close> of the matched
  digits, and its ssid is the trimmed ssid match, or \<^verbatim>\<open>Unknown\<close> without one. A status field
  whose expression finds no match is unset.
\<close>

theorem parsers_drop_or_default:
  "parseScanResults out =
     List.map_filter parseScanLine
       (drop (if includesStr ''BSSID'' (hd (splitOn CHR 0x0A out)) then 1 else 0)
          (splitOn CHR 0x0A out))
   \<and> (parseScanLine l = None \<longleftrightarrow>
      trim l = [] \<or> length (scanTokens l) < 3 \<or> \<not> bssidPattern (scanTokens l ! 0))
   \<and> (parseScanLine l = Some r \<longrightarrow>
        r = \<lparr> sr_ssid = (if 4 < length (scanTokens l)
                            \<and> trim (joinWith '' '' (drop 4 (scanTokens l))) \<noteq> []
                         then trim (joinWith '' '' (drop 4 (scanTokens l))) else ''<hidden>''),
              sr_bssid = scanTokens l ! 0,
              sr_frequency = (if frequencyPattern (scanTokens l ! 1)
                              then parseInt (scanTokens l ! 1) else Num 0),
              sr_rssi = (if rssiPattern (scanTokens l ! 2)
                         then parseInt (scanTokens l ! 2) else Num 0),
              sr_security = securityOf (flagsPartOf (trim l)) \<rparr>
        \<and> (\<exists>k. sr_frequency r = Num k \<and> 0 \<le> k \<and> k < 100000)
        \<and> (\<exists>k. sr_rssi r = Num k \<and> - 1000 < k \<and> k < 1000)
        \<and> sr_ssid r \<noteq> []
        \<and> (length (scanTokens l) \<le> 4 \<longrightarrow> sr_ssid r = ''<hidden>''))
   \<and> parseSavedNetworks sout = List.map_filter parseSavedLine (splitOn CHR 0x0A sout)
   \<and> (parseSavedLine sl = None \<longleftrightarrow> trim sl = [] \<or> search savedIdRx (trim sl) = None)
   \<and> (parseSavedLine sl = Some n \<longrightarrow>
        (\<exists>g. group1 (search savedIdRx (trim sl)) = Some g \<and> networkId n = parseInt g)
        \<and> sn_ssid n = (case group1 (search savedSsidRx (trim sl)) of
                         Some t \<Rightarrow> trim t | None \<Rightarrow> ''Unknown''))
   \<and> (parseSavedLine sl = Some n \<and> search savedSsidRx (trim sl) = None \<longrightarrow>
        sn_ssid n = ''Unknown'')
   \<and> (search statusSsidRx d = None \<longrightarrow> st_ssid (parseStatus s d) = None)
   \<and> (search statusBssidRx d = None \<longrightarrow> st_bssid (parseStatus s d) = None)
   \<and> (search statusIpRx d = None \<longrightarrow> ipAddress (parseStatus s d) = None)
   \<and> (search statusSpeedRx d = None \<longrightarrow> linkSpeed (parseStatus s d) = None)
   \<and> (search statusRssiRx d = None \<longrightarrow> st_rssi (parseStatus s d) = None)
   \<and> (search statusFreqRx d = None \<longrightarrow> st_frequency (parseStatus s d) = None)"
proof -
  have bp: "\<And>t. bssidPattern t \<Longrightarrow> t \<noteq> []" by (auto simp: bssidPattern_unfold)
  have s1: "parseScanResults out =
     List.map_filter parseScanLine
       (drop (if includesStr ''BSSID'' (hd (splitOn CHR 0x0A out)) then 1 else 0)
          (splitOn CHR 0x0A out))"
    by (cases "splitOn CHR 0x0A out")
       (simp_all add: parseScanResults_def Let_def scanLoop_map_filter)
  have a: "parseScanLine l = None \<longleftrightarrow>
      trim l = [] \<or> length (scanTokens l) < 3 \<or> \<not> bssidPattern (scanTokens l ! 0)"
    using bp by (auto simp: parseScanLine_def scanTokens_def Let_def)
  have b1: "parseScanLine l = Some r \<longrightarrow>
        r = \<lparr> sr_ssid = (if 4 < length (scanTokens l)
                            \<and> trim (joinWith '' '' (drop 4 (scanTokens l))) \<noteq> []
                         then trim (joinWith '' '' (drop 4 (scanTokens l))) else ''<hidden>''),
              sr_bssid = scanTokens l ! 0,
              sr_frequency = (if frequencyPattern (scanTokens l ! 1)
                              then parseInt (scanTokens l ! 1) else Num 0),
              sr_rssi = (if rssiPattern (scanTokens l ! 2)
                         then parseInt (scanTokens l ! 2) else Num 0),
              sr_security = securityOf (flagsPartOf (trim l)) \<rparr>"
    by (auto simp: parseScanLine_def scanTokens_def Let_def split: if_splits)
  have b2: "parseScanLine l = Some r \<longrightarrow>
        (\<exists>k. sr_frequency r = Num k \<and> 0 \<le> k \<and> k < 100000)
        \<and> (\<exists>k. sr_rssi r = Num k \<and> - 1000 < k \<and> k < 1000)
        \<and> sr_ssid r \<noteq> []
        \<and> (length (scanTokens l) \<le> 4 \<longrightarrow> sr_ssid r = ''<hidden>'')"
    using parseInt_frequency[of "scanTokens l ! 1"] parseInt_rssi[of "scanTokens l ! 2"]
    by (auto simp: parseScanLine_def scanTokens_def Let_def split: if_splits)
  have s2: "parseSavedNetworks sout = List.map_filter parseSavedLine (splitOn CHR 0x0A sout)"
    by (simp add: parseSavedNetworks_def savedLoop_map_filter)
  have c: "parseSavedLine sl = None \<longleftrightarrow> trim sl = [] \<or> search savedIdRx (trim sl) = None"
    using group1_None[OF captures_savedIdRx, of "trim sl"]
    by (auto simp: parseSavedLine_def Let_def split: option.splits)
  have d1: "parseSavedLine sl = Some n \<longrightarrow>
        (\<exists>g. group1 (search savedIdRx (trim sl)) = Some g \<and> networkId n = parseInt g)
        \<and> sn_ssid n = (case group1 (search savedSsidRx (trim sl)) of
                         Some t \<Rightarrow> trim t | None \<Rightarrow> ''Unknown'')"
    by (auto simp: parseSavedLine_def Let_def split: option.splits if_splits)
  have d: "parseSavedLine sl = Some n \<and> search savedSsidRx (trim sl) = None \<longrightarrow>
        sn_ssid n = ''Unknown''"
    by (auto simp: parseSavedLine_def Let_def group1_def split: option.splits if_splits)
  have e1: "search statusSsidRx d = None \<longrightarrow> st_ssid (parseStatus s d) = None"
    by (simp add: parseStatus_def Let_def group1_def)
  have e2: "search statusBssidRx d = None \<longrightarrow> st_bssid (parseStatus s d) = None"
    by (simp add: parseStatus_def Let_def group1_def)
  have e3: "search statusIpRx d = None \<longrightarrow> ipAddress (parseStatus s d) = None"
    by (simp add: parseStatus_def Let_def group1_def)
  have e4: "search statusSpeedRx d = None \<longrightarrow> linkSpeed (parseStatus s d) = None"
    by (simp add: parseStatus_def Let_def group1_def)
  have e5: "search statusRssiRx d = None \<longrightarrow> st_rssi (parseStatus s d) = None"
    by (simp add: parseStatus_def Let_def group1_def)
  have e6: "search statusFreqRx d = None \<longrightarrow> st_frequency (parseStatus s d) = None"
    by (simp add: parseStatus_def Let_def group1_def)
  from s1 a b1 b2 s2 c d1 d e1 e2 e3 e4 e5 e6 show ?thesis by blast
qed

text \<open>
  Claim C9 as stated says that a scan line whose frequency token fails its pattern yields
  no record with a made-up number. Here the token is \<^verbatim>\<open>24x2\<close> and the record is pushed
  with frequency 0.
\<close>

theorem scan_fabricated_frequency_counterexample:
  "\<not> frequencyPattern (scanTokens badFreqLine ! 1)
   \<and> parseScanLine badFreqLine =
       Some \<lparr> sr_ssid = ''HomeNet'', sr_bssid = ''84:18:3a:06:be:58'', sr_frequency = Num 0,
              sr_rssi = Num (- 51), sr_security = ''Open'' \<rparr>"
  by (simp add: badFreqLine_def scanTokens_def scan_eval)

theorem parsers_drop_or_default_witness:
  "parseScanLine badFreqLine \<noteq> None
   \<and> \<not> frequencyPattern (scanTokens badFreqLine ! 1)
   \<and> sr_frequency (the (parseScanLine badFreqLine)) = Num 0
   \<and> parseSavedLine ''Network ID: 7'' \<noteq> None
   \<and> search savedSsidRx (trim ''Network ID: 7'') = None
   \<and> sn_ssid (the (parseSavedLine ''Network ID: 7'')) = ''Unknown''
   \<and> search statusSsidRx ''Wi-Fi is enabled'' = None
   \<and> st_ssid (parseStatus [] ''Wi-Fi is enabled'') = None
   \<and> parseScanLine ''garbage'' = None
   \<and> parseScanLine ''84:18:3a:06:be:58 2412 -51 17.2 BSSID'' \<noteq> None
   \<and> parseScanResults ''84:18:3a:06:be:58 2412 -51 17.2 BSSID'' = []
   \<and> parseSavedNetworks ''Network ID: 7'' = [the (parseSavedLine ''Network ID: 7'')]"
proof -
  have h1: "parseScanLine badFreqLine \<noteq> None"
    by (simp add: badFreqLine_def scan_eval)
  have h2: "\<not> frequencyPattern (scanTokens badFreqLine ! 1)"
    by (simp add: badFreqLine_def scanTokens_def scan_eval)
  have h3: "parseSavedLine ''Network ID: 7'' \<noteq> None"
    by (simp add: parseSavedLine_def savedIdRx_def savedSsidRx_def rx_eval)
  have h4: "search savedSsidRx (trim ''Network ID: 7'') = None"
    by (simp add: savedSsidRx_def rx_eval)
  have h5: "search statusSsidRx ''Wi-Fi is enabled'' = None"
    by (simp add: statusSsidRx_def rx_eval)
  have h6: "length (scanTokens ''garbage'') < 3"
    by (simp add: scanTokens_def mainPartOf_def indexOf_def trim_def isWs_simps)
  have h7: "parseScanLine ''84:18:3a:06:be:58 2412 -51 17.2 BSSID'' \<noteq> None"
    by (simp add: scan_eval)
  have h8: "splitOn CHR 0x0A ''84:18:3a:06:be:58 2412 -51 17.2 BSSID''
              = [''84:18:3a:06:be:58 2412 -51 17.2 BSSID'']"
    by simp
  have h9: "includesStr ''BSSID'' ''84:18:3a:06:be:58 2412 -51 17.2 BSSID''"
    by simp
  have h10: "splitOn CHR 0x0A ''Network ID: 7'' = [''Network ID: 7'']"
    by simp
  from h1 obtain r where r: "parseScanLine badFreqLine = Some r" by blast
  from h3 obtain n where n: "parseSavedLine ''Network ID: 7'' = Some n" by blast
  note t = parsers_drop_or_default[of "''84:18:3a:06:be:58 2412 -51 17.2 BSSID''" badFreqLine r
      "''Network ID: 7''" "''Network ID: 7''" n "''Wi-Fi is enabled''" "[]"]
  from t r n h2 h4 h5
  have a: "sr_frequency r = Num 0" "sn_ssid n = ''Unknown''"
    "st_ssid (parseStatus [] ''Wi-Fi is enabled'') = None"
    by auto
  from t h8 h9
  have c: "parseScanResults ''84:18:3a:06:be:58 2412 -51 17.2 BSSID'' = []"
    by (simp add: map_filter_simps)
  from t h10 n
  have e: "parseSavedNetworks ''Network ID: 7'' = [the (parseSavedLine ''Network ID: 7'')]"
    by (simp add: map_filter_simps)
  from parsers_drop_or_default[of "[]" "''garbage''" r "[]" "''Network ID: 7''" n
      "''Wi-Fi is enabled''" "[]"] h6
  have b: "parseScanLine ''garbage'' = None" by blast
  from h1 h2 h3 h4 h5 h7 a b c e r n show ?thesis by simp
qed
section \<open>Properties of connect\<close>

text \<open>
  Claim C10, as the code has it. The result of \<^verbatim>\<open>connect\<close> carries the requested ssid in its
  \<open>ssid\<close> field. Its \<open>success\<close> is true exactly when the connect command succeeded, its output
  holds no \<^verbatim>\<open>error\<close> marker, and the status read after it reports \<open>connected\<close> with that
  ssid; then there is no error text. In every other case \<open>success\<close> is false and the error text
  is not empty: it is the command's stderr, else its stdout, else \<^verbatim>\<open>Connection failed\<close> when
  the command failed or printed an error marker, and \<^verbatim>\<open>Failed to verify connection\<close> when
  the status read did not confirm the connection.
\<close>

theorem connect_verified:
  "wc_ssid (fst (connect E ssid sec pw w)) = ssid
   \<and> (wc_success (fst (connect E ssid sec pw w)) \<longleftrightarrow>
        success (fst (shell E (connectCommand ssid sec pw) w))
        \<and> \<not> includesStr ''error'' (toLowerCase (stdout (fst (shell E (connectCommand ssid sec pw) w))))
        \<and> connected (fst (getStatus E (sleep 3000 (snd (shell E (connectCommand ssid sec pw) w)))))
        \<and> st_ssid (fst (getStatus E (sleep 3000 (snd (shell E (connectCommand ssid sec pw) w)))))
            = Some ssid)
   \<and> (wc_success (fst (connect E ssid sec pw w)) \<longrightarrow>
        wc_error (fst (connect E ssid sec pw w)) = None)
   \<and> (\<not> wc_success (fst (connect E ssid sec pw w)) \<longrightarrow>
        wc_error (fst (connect E ssid sec pw w)) =
          Some (if \<not> success (fst (shell E (connectCommand ssid sec pw) w))
                   \<or> includesStr ''error''
                        (toLowerCase (stdout (fst (shell E (connectCommand ssid sec pw) w))))
                then (if stderr (fst (shell E (connectCommand ssid sec pw) w)) \<noteq> []
                      then stderr (fst (shell E (connectCommand ssid sec pw) w))
                      else if stdout (fst (shell E (connectCommand ssid sec pw) w)) \<noteq> []
                      then stdout (fst (shell E (connectCommand ssid sec pw) w))
                      else ''Connection failed'')
                else ''Failed to verify connection'')
        \<and> (\<exists>e. wc_error (fst (connect E ssid sec pw w)) = Some e \<and> e \<noteq> []))"
  by (auto simp: connect_def Let_def orElse_def truthyStr_def split: prod.splits if_splits)

lemmas exec_eval = shell_def shellT_def exec_def commandLine_def adbResultOf_def orElse_def truthyStr_def
  sleep_def

lemma connect_other_eval:
  "fst (connect homeEnv ''Other'' SecWpa2 (Some ''secret'') world0) =
     \<lparr> wc_success = False, wc_ssid = ''Other'', wc_error = Some ''Failed to verify connection'' \<rparr>"
proof -
  let ?o = "connectCommand ''Other'' SecWpa2 (Some ''secret'')"
  have ro: "shell homeEnv ?o world0 =
     (\<lparr> success = True, stdout = ''Connection initiated'', stderr = [], exitCode = 0 \<rparr>,
      world0\<lparr> clock := 5, log := [''adb shell '' @ ?o] \<rparr>)"
    by (simp add: exec_eval homeEnv_def world0_def connectCommand_def trim_def isWs_def)
  have st: "\<And>l. fst (getStatus homeEnv (sleep 3000 (world0\<lparr> clock := 5, log := l \<rparr>)))
      = parseStatus ''Wifi is enabled'' dumpHome"
    by (simp add: getStatus_def exec_eval homeEnv_def dumpHome_def world0_def trim_def isWs_def)
  have ps: "st_ssid (parseStatus ''Wifi is enabled'' dumpHome) = Some ''HomeNet''"
    by (simp add: parseStatus_def dumpHome_def statusSsidRx_def rx_eval)
  have ne: "\<not> includesStr ''error'' (toLowerCase ''Connection initiated'')"
    by (simp add: toLowerCase_def lower_def)
  obtain status w3 where g: "getStatus homeEnv
      (sleep 3000 (world0\<lparr> clock := 5, log := [''adb shell '' @ ?o] \<rparr>)) = (status, w3)"
    by (cases "getStatus homeEnv
      (sleep 3000 (world0\<lparr> clock := 5, log := [''adb shell '' @ ?o] \<rparr>))")
  with st[of "[''adb shell '' @ ?o]"] have "status = parseStatus ''Wifi is enabled'' dumpHome"
    by simp
  with ps have "st_ssid status = Some ''HomeNet''" by simp
  with ro g ne show ?thesis by (simp add: connect_def Let_def)
qed

text \<open>
  Claim C10 as stated says that the error string of a failed connect echoes the requested ssid.
  Here the device stays on \<^verbatim>\<open>HomeNet\<close> while \<^verbatim>\<open>Other\<close> is requested: the result is a failure
  whose error string is \<^verbatim>\<open>Failed to verify connection\<close>, which does not contain \<^verbatim>\<open>Other\<close>;
  the requested ssid is in the \<open>ssid\<close> field only.
\<close>

theorem connect_error_omits_ssid_counterexample:
  "\<not> wc_success (fst (connect homeEnv ''Other'' SecWpa2 (Some ''secret'') world0))
   \<and> wc_error (fst (connect homeEnv ''Other'' SecWpa2 (Some ''secret'') world0))
       = Some ''Failed to verify connection''
   \<and> \<not> includesStr ''Other'' ''Failed to verify connection''
   \<and> wc_ssid (fst (connect homeEnv ''Other'' SecWpa2 (Some ''secret'') world0)) = ''Other''"
  by (simp add: connect_other_eval)

theorem connect_verified_witness:
  "success (fst (shell homeEnv (connectCommand ''HomeNet'' SecWpa2 (Some ''secret'')) world0))
   \<and> connected (fst (getStatus homeEnv (sleep 3000
        (snd (shell homeEnv (connectCommand ''HomeNet'' SecWpa2 (Some ''secret'')) world0)))))
   \<and> wc_success (fst (connect homeEnv ''HomeNet'' SecWpa2 (Some ''secret'') world0))
   \<and> wc_error (fst (connect homeEnv ''HomeNet'' SecWpa2 (Some ''secret'') world0)) = None
   \<and> \<not> wc_success (fst (connect homeEnv ''Other'' SecWpa2 (Some ''secret'') world0))
   \<and> wc_error (fst (connect homeEnv ''Other'' SecWpa2 (Some ''secret'') world0))
       = Some ''Failed to verify connection''"
proof -
  let ?c = "connectCommand ''HomeNet'' SecWpa2 (Some ''secret'')"
  let ?o = "connectCommand ''Other'' SecWpa2 (Some ''secret'')"
  have r: "shell homeEnv ?c world0 =
     (\<lparr> success = True, stdout = ''Connection initiated'', stderr = [], exitCode = 0 \<rparr>,
      world0\<lparr> clock := 5, log := [''adb shell '' @ ?c] \<rparr>)"
    by (simp add: exec_eval homeEnv_def world0_def connectCommand_def trim_def isWs_def)
  have ro: "shell homeEnv ?o world0 =
     (\<lparr> success = True, stdout = ''Connection initiated'', stderr = [], exitCode = 0 \<rparr>,
      world0\<lparr> clock := 5, log := [''adb shell '' @ ?o] \<rparr>)"
    by (simp add: exec_eval homeEnv_def world0_def connectCommand_def trim_def isWs_def)
  have st: "\<And>l. fst (getStatus homeEnv (sleep 3000 (world0\<lparr> clock := 5, log := l \<rparr>)))
      = parseStatus ''Wifi is enabled'' dumpHome"
    by (simp add: getStatus_def exec_eval homeEnv_def dumpHome_def world0_def trim_def isWs_def)
  have ps: "connected (parseStatus ''Wifi is enabled'' dumpHome)"
    "st_ssid (parseStatus ''Wifi is enabled'' dumpHome) = Some ''HomeNet''"
    by (simp_all add: parseStatus_def dumpHome_def statusSsidRx_def rx_eval)
  have ne: "\<not> includesStr ''error'' (toLowerCase ''Connection initiated'')"
    by (simp add: toLowerCase_def lower_def)
  from connect_verified[of homeEnv "''HomeNet''" SecWpa2 "Some ''secret''" world0]
       connect_verified[of homeEnv "''Other''" SecWpa2 "Some ''secret''" world0]
       r ro st ps ne
  show ?thesis by auto
qed

section \<open>Properties of the enterprise bridge\<close>

text \<open>
  Claim C6. A PEAP or TTLS request without a password (absent or empty), and a TLS request
  without the client certificate or the private key, is answered at once with a failure
  result; the state returned is the state given, so no command was issued.
\<close>

theorem enterprise_build_validation:
  assumes "((eapMethod cfg = Peap \<or> eapMethod cfg = Ttls)
              \<and> (password cfg = None \<or> password cfg = Some []))
           \<or> (eapMethod cfg = Tls
              \<and> (clientCertificate cfg = None \<or> clientCertificate cfg = Some []
                  \<or> privateKey cfg = None \<or> privateKey cfg = Some []))"
  shows "(\<exists>r. fst (connectEnterprise J E cfg w) = Local r \<and> \<not> ec_success r
             \<and> ec_ssid r = eap_ssid cfg \<and> ec_error r \<noteq> None)
         \<and> snd (connectEnterprise J E cfg w) = w
         \<and> log (snd (connectEnterprise J E cfg w)) = log w"
  using assms
  by (auto simp: connectEnterprise_def falsyStr_def truthyStr_def)

theorem enterprise_build_validation_witness:
  "eapMethod peapNoPassword = Peap \<and> password peapNoPassword = None
   \<and> fst (connectEnterprise toyJson (stubEnv timeoutError) peapNoPassword world0) =
       Local \<lparr> ec_success = False, ec_ssid = ''CorpNet'', ec_eapMethod = Peap,
               ec_error = Some ''Password is required for EAP-PEAP/TTLS'' \<rparr>
   \<and> log (snd (connectEnterprise toyJson (stubEnv timeoutError) peapNoPassword world0)) = []
   \<and> eapMethod tlsNoKey = Tls \<and> privateKey tlsNoKey = None
   \<and> log (snd (connectEnterprise toyJson (stubEnv timeoutError) tlsNoKey world0)) = []"
proof -
  have h: "eapMethod peapNoPassword = Peap" "password peapNoPassword = None"
    by (simp_all add: peapNoPassword_def)
  have l: "log world0 = []" by (simp add: world0_def)
  have r: "fst (connectEnterprise toyJson (stubEnv timeoutError) peapNoPassword world0) =
       Local \<lparr> ec_success = False, ec_ssid = ''CorpNet'', ec_eapMethod = Peap,
               ec_error = Some ''Password is required for EAP-PEAP/TTLS'' \<rparr>"
    by (simp add: connectEnterprise_def peapNoPassword_def falsyStr_def truthyStr_def)
  from enterprise_build_validation[of peapNoPassword toyJson "stubEnv timeoutError" world0] h
  have "log (snd (connectEnterprise toyJson (stubEnv timeoutError) peapNoPassword world0)) = log world0"
    by blast
  moreover have t: "eapMethod tlsNoKey = Tls" "privateKey tlsNoKey = None"
    by (simp_all add: tlsNoKey_def peapNoPassword_def)
  moreover from enterprise_build_validation[of tlsNoKey toyJson "stubEnv timeoutError" world0] t
  have "log (snd (connectEnterprise toyJson (stubEnv timeoutError) tlsNoKey world0)) = log world0"
    by blast
  ultimately show ?thesis using h l r by simp
qed

section \<open>Properties of the DNS lookup\<close>

lemma log_shell: "log (snd (shell E c w)) = log w @ [commandLine w [''shell'', c]]"
  by (simp add: shell_def shellT_def exec_def Let_def split: prod.splits)

text \<open>
  Claim C8 at the failing input. The answer section of the primary resolver names an IPv6
  address. The first alternative of the address pattern takes its leading digits, the
  test for a colon passes, and the fragment is kept as an address; the later tiers are
  then skipped.
\<close>

theorem dns_ipv6_fragment_kept:
  "fst (dnsLookup v6Env ''example.com'' world0) =
     \<lparr> dns_hostname = ''example.com'', addresses = [''2001''], dns_error = None \<rparr>
   \<and> log (snd (dnsLookup v6Env ''example.com'' world0)) = [''adb shell nslookup example.com'']"
  by (simp add: dnsLookup_def v6Env_def v6Answer_def world0_def exec_eval addressRx_def rx_eval)

text \<open>
  The order of the tiers: when the primary resolver yields an address, its command is the
  only one issued.
\<close>

lemma dns_tier_order:
  assumes "success (fst (shell E (''nslookup '' @ h) w))"
    and "nslookupLoop False (splitOn CHR 0x0A (stdout (fst (shell E (''nslookup '' @ h) w)))) \<noteq> []"
  shows "log (snd (dnsLookup E h w)) = log w @ [commandLine w [''shell'', ''nslookup '' @ h]]
    \<and> addresses (fst (dnsLookup E h w)) =
        nslookupLoop False (splitOn CHR 0x0A (stdout (fst (shell E (''nslookup '' @ h) w))))"
proof -
  obtain r1 w1 where s: "shell E (''nslookup '' @ h) w = (r1, w1)" by force
  let ?a = "nslookupLoop False (splitOn CHR 0x0A (stdout r1))"
  from assms s have ok: "success r1" and ne: "?a \<noteq> []" by simp_all
  have "dnsLookup E h w = (\<lparr> dns_hostname = h, addresses = ?a, dns_error = None \<rparr>, w1)"
    unfolding dnsLookup_def s using ok ne by (simp add: Let_def)
  moreover have "log w1 = log w @ [commandLine w [''shell'', ''nslookup '' @ h]]"
    using log_shell[of E "''nslookup '' @ h" w] unfolding s by simp
  ultimately show ?thesis unfolding s by simp
qed

section \<open>Properties of device selection\<close>

lemma startsWith_append: "startsWith x (x @ r)"
  by (induction x) auto

lemma includesStr_here: "includesStr x (x @ r)"
  by (cases "x @ r") (auto simp: startsWith_append, metis startsWith_append)

lemma includesStr_prepend: "includesStr x h \<Longrightarrow> includesStr x (p @ h)"
  by (induction p) auto

lemma startsWith_extend: "startsWith x h \<Longrightarrow> startsWith x (h @ r)"
  by (induction x h rule: startsWith.induct) auto

lemma includesStr_extend: "includesStr x h \<Longrightarrow> includesStr x (h @ r)"
proof (induction h)
  case Nil
  then show ?case by (cases r) auto
next
  case (Cons c h)
  then show ?case using startsWith_extend[of x "c # h" r] by auto
qed

lemma includesStr_mid: "includesStr x (p @ x @ r)"
  by (rule includesStr_prepend) (rule includesStr_here)

lemma includesStr_join: "x \<in> set xs \<Longrightarrow> includesStr x (joinWith sep xs)"
proof (induction sep xs rule: joinWith.induct)
  case (1 sep)
  then show ?case by simp
next
  case (2 sep y)
  then show ?case using includesStr_here[of x "[]"] by simp
next
  case (3 sep y z r)
  show ?case
  proof (cases "x = y")
    case True
    then show ?thesis using includesStr_here[of y "sep @ joinWith sep (z # r)"] by simp
  next
    case False
    with 3 have "includesStr x (joinWith sep (z # r))" by simp
    then have "includesStr x ((y @ sep) @ joinWith sep (z # r))" by (rule includesStr_prepend)
    then show ?thesis by simp
  qed
qed

text \<open>
  One call of \<^verbatim>\<open>ensureDeviceSelected\<close>. With a serial selected, the call returns it and
  changes nothing. Otherwise it refreshes; when the refresh returns the list \<open>devs\<close> and
  leaves the state \<open>w1\<close>: with no ready device in the list the call fails with the no-device
  message, with exactly one it returns that device's serial and the state is \<open>w1\<close> with that
  serial selected, with more than one it fails with a message that names the serial of every
  ready device, in the state \<open>w1\<close>.
\<close>

theorem ensure_selected:
  "(selectedDevice w = Some s \<and> s \<noteq> [] \<longrightarrow> ensureDeviceSelected E w = (Inr s, w))
   \<and> ((selectedDevice w = None \<or> selectedDevice w = Some [])
        \<and> refreshDevices E w = (Inr devs, w1) \<longrightarrow>
        (filter isReady devs = [] \<longrightarrow> ensureDeviceSelected E w = (Inl noDeviceMessage, w1))
        \<and> (\<forall>d. filter isReady devs = [d] \<longrightarrow>
              ensureDeviceSelected E w = (Inr (d_serial d), w1\<lparr> selectedDevice := Some (d_serial d) \<rparr>))
        \<and> (1 < length (filter isReady devs) \<longrightarrow>
              (\<exists>m. ensureDeviceSelected E w = (Inl m, w1)
                   \<and> includesStr ''Multiple devices connected'' m
                   \<and> (\<forall>d\<in>set (filter isReady devs). includesStr (d_serial d) m))))"
proof (intro conjI impI allI)
  assume "selectedDevice w = Some s \<and> s \<noteq> []"
  then show "ensureDeviceSelected E w = (Inr s, w)" by (simp add: ensureDeviceSelected_def)
next
  assume a: "(selectedDevice w = None \<or> selectedDevice w = Some []) \<and> refreshDevices E w = (Inr devs, w1)"
  then have e: "ensureDeviceSelected E w = ensureAfterRefresh E w"
    by (auto simp: ensureDeviceSelected_def)
  {
    assume "filter isReady devs = []"
    then show "ensureDeviceSelected E w = (Inl noDeviceMessage, w1)"
      using a by (simp add: e ensureAfterRefresh_def noDeviceMessage_def Let_def)
  }
  {
    fix d assume "filter isReady devs = [d]"
    then show "ensureDeviceSelected E w = (Inr (d_serial d), w1\<lparr> selectedDevice := Some (d_serial d) \<rparr>)"
      using a by (simp add: e ensureAfterRefresh_def selectDevice_def Let_def)
  }
  {
    assume m: "1 < length (filter isReady devs)"
    let ?c = "filter isReady devs"
    let ?m = "''Multiple devices connected: '' @ joinWith '', '' (map d_serial ?c) @ ''. '' @
                  ''Please select a device using device_select.''"
    have 1: "ensureDeviceSelected E w = (Inl ?m, w1)"
      using a m by (auto simp add: e ensureAfterRefresh_def Let_def)
    have 2: "includesStr ''Multiple devices connected'' ?m"
      using includesStr_here[of "''Multiple devices connected''"] by simp
    have 3: "\<forall>d\<in>set ?c. includesStr (d_serial d) ?m"
    proof
      fix d assume "d \<in> set ?c"
      then have "d_serial d \<in> set (map d_serial ?c)" by simp
      then have "includesStr (d_serial d) (joinWith '', '' (map d_serial ?c))"
        by (rule includesStr_join)
      then have "includesStr (d_serial d) (joinWith '', '' (map d_serial ?c) @ ''. '' @
                  ''Please select a device using device_select.'')"
        by (rule includesStr_extend)
      then show "includesStr (d_serial d) ?m" by (rule includesStr_prepend)
    qed
    from 1 2 3 show "\<exists>m. ensureDeviceSelected E w = (Inl m, w1)
                   \<and> includesStr ''Multiple devices connected'' m
                   \<and> (\<forall>d\<in>set (filter isReady devs). includesStr (d_serial d) m)"
      by blast
  }
qed

lemma refreshDevices_fst: "fst (refreshDevices E w) = fst (listDevices E w)"
  by (simp add: refreshDevices_def Let_def split: prod.splits sum.splits)

lemmas device_eval = listDevices_def parseDeviceLine_def applyProperty_def exec_eval trim_def
  isWs_simps Let_def world0_def

lemma two_listed: "fst (listDevices twoDevicesEnv world0) = Inr twoDevices"
  by (simp add: twoDevicesEnv_def devicesListing_def twoDevices_def device_eval)

lemma two_refresh_selection:
  "selectedDevice (snd (refreshDevices twoDevicesEnv world0)) = Some ''R58M123''"
  by (simp add: refreshDevices_def cacheLoop.simps getDeviceInfo_def deviceProps_def selectDevice_def
       isReady_def twoDevicesEnv_def devicesListing_def device_eval)

lemma ensure_keeps_selection:
  "selectedDevice w = Some s \<Longrightarrow> s \<noteq> [] \<Longrightarrow> ensureDeviceSelected E w = (Inr s, w)"
  by (simp add: ensureDeviceSelected_def)

lemma two_ensure_first:
  "ensureDeviceSelected twoDevicesEnv world0 =
     (Inl (''Multiple devices connected: emulator-5554, R58M123. '' @
           ''Please select a device using device_select.''),
      snd (refreshDevices twoDevicesEnv world0))"
proof -
  have "fst (refreshDevices twoDevicesEnv world0) = Inr twoDevices"
    by (simp add: refreshDevices_fst two_listed)
  then have r: "refreshDevices twoDevicesEnv world0
                  = (Inr twoDevices, snd (refreshDevices twoDevicesEnv world0))"
    by (cases "refreshDevices twoDevicesEnv world0") auto
  have e: "ensureDeviceSelected twoDevicesEnv world0 = ensureAfterRefresh twoDevicesEnv world0"
    by (simp add: ensureDeviceSelected_def world0_def)
  have f: "filter isReady twoDevices = twoDevices" by (simp add: twoDevices_def isReady_def)
  have j: "joinWith '', '' (map d_serial twoDevices) = ''emulator-5554, R58M123''"
    by (simp add: twoDevices_def)
  have l: "length twoDevices = 2" "twoDevices \<noteq> []" by (simp_all add: twoDevices_def)
  show ?thesis
    unfolding e ensureAfterRefresh_def
    by (subst r) (simp add: f j l Let_def)
qed

text \<open>
  Claim C5, with its scenario B: when two ready devices are attached and none is selected,
  an operation that needs a selection fails with the ambiguity error that names both
  serials. The refresh selects each newly seen ready device in turn to read its properties
  and does not put the earlier selection back, so it leaves the last device selected. With
  two ready devices and nothing selected, the first call of \<^verbatim>\<open>ensureDeviceSelected\<close> fails with
  the ambiguity error and leaves \<^verbatim>\<open>R58M123\<close> selected; the second call returns \<^verbatim>\<open>R58M123\<close>
  with no error. After an enumeration of the two devices the first call does so already.
\<close>

theorem ambiguity_lost_after_refresh:
  "selectedDevice world0 = None
   \<and> fst (refreshDevices twoDevicesEnv world0) = Inr twoDevices
   \<and> map d_serial (filter isReady twoDevices) = [''emulator-5554'', ''R58M123'']
   \<and> fst (ensureDeviceSelected twoDevicesEnv world0) =
       Inl (''Multiple devices connected: emulator-5554, R58M123. '' @
            ''Please select a device using device_select.'')
   \<and> selectedDevice (snd (ensureDeviceSelected twoDevicesEnv world0)) = Some ''R58M123''
   \<and> fst (ensureDeviceSelected twoDevicesEnv (snd (ensureDeviceSelected twoDevicesEnv world0)))
       = Inr ''R58M123''
   \<and> fst (ensureDeviceSelected twoDevicesEnv (snd (refreshDevices twoDevicesEnv world0)))
       = Inr ''R58M123''"
proof -
  have a: "selectedDevice world0 = None" by (simp add: world0_def)
  have b: "fst (refreshDevices twoDevicesEnv world0) = Inr twoDevices"
    by (simp add: refreshDevices_fst two_listed)
  have c: "map d_serial (filter isReady twoDevices) = [''emulator-5554'', ''R58M123'']"
    by (simp add: twoDevices_def isReady_def)
  have d: "ensureDeviceSelected twoDevicesEnv (snd (refreshDevices twoDevicesEnv world0))
             = (Inr ''R58M123'', snd (refreshDevices twoDevicesEnv world0))"
    by (rule ensure_keeps_selection[OF two_refresh_selection]) simp
  from a b c d show ?thesis by (simp add: two_ensure_first two_refresh_selection)
qed

theorem ensure_selected_witness:
  "ensureDeviceSelected twoDevicesEnv (world0\<lparr> selectedDevice := Some ''R58M123'' \<rparr>)
     = (Inr ''R58M123'', world0\<lparr> selectedDevice := Some ''R58M123'' \<rparr>)
   \<and> selectedDevice world0 = None
   \<and> fst (refreshDevices twoDevicesEnv world0) = Inr twoDevices
   \<and> length (filter isReady twoDevices) = 2
   \<and> isl (fst (ensureDeviceSelected twoDevicesEnv world0))
   \<and> includesStr ''emulator-5554'' (projl (fst (ensureDeviceSelected twoDevicesEnv world0)))
   \<and> includesStr ''R58M123'' (projl (fst (ensureDeviceSelected twoDevicesEnv world0)))
   \<and> fst (ensureDeviceSelected oneDeviceEnv world0) = Inr ''R58M123''
   \<and> selectedDevice (snd (ensureDeviceSelected oneDeviceEnv world0)) = Some ''R58M123''
   \<and> fst (ensureDeviceSelected noDeviceEnv world0) = Inl noDeviceMessage"
proof -
  have sel: "selectedDevice world0 = None" by (simp add: world0_def)
  have s1: "selectedDevice (world0\<lparr> selectedDevice := Some ''R58M123'' \<rparr>) = Some ''R58M123''
            \<and> ''R58M123'' \<noteq> []" by simp
  from ensure_selected[of "world0\<lparr> selectedDevice := Some ''R58M123'' \<rparr>" "''R58M123''" twoDevicesEnv] s1
  have a: "ensureDeviceSelected twoDevicesEnv (world0\<lparr> selectedDevice := Some ''R58M123'' \<rparr>)
     = (Inr ''R58M123'', world0\<lparr> selectedDevice := Some ''R58M123'' \<rparr>)" by blast
  \<comment> \<open>two ready devices\<close>
  have r2: "fst (refreshDevices twoDevicesEnv world0) = Inr twoDevices"
    by (simp add: refreshDevices_fst two_listed)
  then obtain w2 where w2: "refreshDevices twoDevicesEnv world0 = (Inr twoDevices, w2)"
    by (cases "refreshDevices twoDevicesEnv world0") auto
  have f2: "filter isReady twoDevices = twoDevices" by (simp add: twoDevices_def isReady_def)
  have l2: "length (filter isReady twoDevices) = 2" by (simp add: twoDevices_def isReady_def)
  from ensure_selected[of world0 "[]" twoDevicesEnv twoDevices w2] sel w2 l2
  obtain m where m: "ensureDeviceSelected twoDevicesEnv world0 = (Inl m, w2)"
    "\<forall>d\<in>set (filter isReady twoDevices). includesStr (d_serial d) m"
    by auto
  from m(2) have "includesStr ''emulator-5554'' m" "includesStr ''R58M123'' m"
    unfolding f2 by (simp_all add: twoDevices_def)
  with m(1) have b: "isl (fst (ensureDeviceSelected twoDevicesEnv world0))"
    "includesStr ''emulator-5554'' (projl (fst (ensureDeviceSelected twoDevicesEnv world0)))"
    "includesStr ''R58M123'' (projl (fst (ensureDeviceSelected twoDevicesEnv world0)))"
    by simp_all
  \<comment> \<open>one ready device\<close>
  let ?one = "[\<lparr> d_serial = ''R58M123'', d_state = ''device'', d_product = None,
        d_model = None, d_device = None, d_transportId = None \<rparr>,
     \<lparr> d_serial = ''R58M999'', d_state = ''offline'', d_product = None,
        d_model = None, d_device = None, d_transportId = None \<rparr>]"
  have "fst (refreshDevices oneDeviceEnv world0) = Inr ?one"
    by (simp add: refreshDevices_fst oneDeviceEnv_def device_eval)
  then obtain w3 where w3: "refreshDevices oneDeviceEnv world0 = (Inr ?one, w3)"
    by (cases "refreshDevices oneDeviceEnv world0") auto
  have f1: "filter isReady ?one = [hd ?one]" by (simp add: isReady_def)
  from ensure_selected[of world0 "[]" oneDeviceEnv ?one w3] sel w3 f1
  have c: "fst (ensureDeviceSelected oneDeviceEnv world0) = Inr ''R58M123''"
    "selectedDevice (snd (ensureDeviceSelected oneDeviceEnv world0)) = Some ''R58M123''"
    by auto
  \<comment> \<open>no device\<close>
  have "fst (refreshDevices noDeviceEnv world0) = Inr []"
    by (simp add: refreshDevices_fst noDeviceEnv_def device_eval)
  then obtain w4 where w4: "refreshDevices noDeviceEnv world0 = (Inr [], w4)"
    by (cases "refreshDevices noDeviceEnv world0") auto
  from ensure_selected[of world0 "[]" noDeviceEnv "[]" w4] sel w4
  have d: "fst (ensureDeviceSelected noDeviceEnv world0) = Inl noDeviceMessage"
    by auto
  from a sel r2 l2 b c d show ?thesis by blast
qed

section \<open>Properties of the result poll\<close>

lemma pollLoop_result:
  assumes "\<And>w. I w \<Longrightarrow>
      I (snd (shell E catResultCommand (sleep pollInterval w)))
      \<and> (success (fst (shell E catResultCommand (sleep pollInterval w))) \<longrightarrow>
           G (stdout (fst (shell E catResultCommand (sleep pollInterval w)))))"
    and "I w" and "pollLoop J E start w = (Some v, w')"
  shows "\<exists>s. G s \<and> json_parse J s = Some v"
  using assms
proof (induction J E start w rule: pollLoop.induct)
  case (1 J E startTime w)
  let ?r = "fst (shell E catResultCommand (sleep pollInterval w))"
  let ?w2 = "snd (shell E catResultCommand (sleep pollInterval w))"
  note step = "1.prems"(1)
  from step[OF "1.prems"(2)] have I2: "I ?w2" and G: "success ?r \<longrightarrow> G (stdout ?r)"
    by simp_all
  show ?case
  proof (cases "clock w - startTime < RESULT_TIMEOUT")
    case False
    with "1.prems"(3) show ?thesis by (simp add: pollLoop.simps[of J E startTime w])
  next
    case t: True
    show ?thesis
    proof (cases "success ?r \<and> trim (stdout ?r) \<noteq> []")
      case False
      with t "1.prems"(3) have "pollLoop J E startTime ?w2 = (Some v, w')"
        by (simp add: pollLoop.simps[of J E startTime w] Let_def)
      from "1.IH"(2)[OF t refl refl refl False step I2 this] show ?thesis by simp
    next
      case s: True
      show ?thesis
      proof (cases "json_parse J (stdout ?r)")
        case None
        with s t "1.prems"(3) have "pollLoop J E startTime ?w2 = (Some v, w')"
          by (simp add: pollLoop.simps[of J E startTime w] Let_def)
        from "1.IH"(1)[OF t refl refl refl s None step I2 this] show ?thesis by simp
      next
        case (Some res)
        with s t "1.prems"(3) have "res = v"
          by (simp add: pollLoop.simps[of J E startTime w] Let_def)
        with Some s G show ?thesis by auto
      qed
    qed
  qed
qed

lemma commandLine_shell: "\<exists>pre. commandLine w [''shell'', c] = pre @ ''shell '' @ c"
  by (auto simp: commandLine_def split: option.splits)

lemma endsWith_suffix: "endsWith n (pre @ n)"
  by (simp add: endsWith_def startsWith_append)

lemma cat_is_not_rm: "\<not> endsWith (''shell '' @ rmResultCommand) (pre @ ''shell '' @ catResultCommand)"
  by (simp add: endsWith_def rmResultCommand_def catResultCommand_def RESULT_FILE_def)

lemma shell_parts:
  "fst (shell E c w) = adbResultOf (fst (E (commandLine w [''shell'', c]) 30000 (clock w) (dev w)))"
  "dev (snd (shell E c w)) = snd (snd (E (commandLine w [''shell'', c]) 30000 (clock w) (dev w)))"
  by (simp_all add: shell_def shellT_def exec_def Let_def split: prod.splits)

lemma sleep_parts: "dev (sleep k w) = dev w" "commandLine (sleep k w) a = commandLine w a"
  by (simp_all add: sleep_def commandLine_def)

lemma deviceEnv_static:
  "agentWrites (snd (snd (deviceEnv cmd t now d))) = agentWrites d"
  "delivered (snd (snd (deviceEnv cmd t now d))) = delivered d"
  "steps (snd (snd (deviceEnv cmd t now d))) = steps d + 1"
  by (simp_all add: deviceEnv_def Let_def split: option.splits)

lemma shell_static:
  "agentWrites (dev (snd (shell deviceEnv c w))) = agentWrites (dev w)"
  "delivered (dev (snd (shell deviceEnv c w))) = delivered (dev w)"
  "steps (dev (snd (shell deviceEnv c w))) = steps (dev w) + 1"
  by (simp_all add: shell_parts deviceEnv_static)

lemma rm_removes:
  assumes "delivered (dev w) (steps (dev w))"
  shows "resultFile (dev (snd (shell deviceEnv rmResultCommand w))) = None"
proof -
  obtain pre where p: "commandLine w [''shell'', rmResultCommand] = pre @ ''shell '' @ rmResultCommand"
    using commandLine_shell by blast
  show ?thesis
    using assms endsWith_suffix[of "''shell '' @ rmResultCommand" pre]
    unfolding shell_parts p by (simp add: deviceEnv_def Let_def)
qed

lemma rm_establishes:
  assumes "delivered (dev w) (steps (dev w))"
  shows "pollInvariant (steps (dev w)) (dev w) (snd (shell deviceEnv rmResultCommand w))"
  using rm_removes[OF assms] by (simp add: pollInvariant_def shell_static)

lemma cat_step:
  assumes "pollInvariant n d0 w"
  shows "pollInvariant n d0 (snd (shell deviceEnv catResultCommand (sleep pollInterval w)))
    \<and> (success (fst (shell deviceEnv catResultCommand (sleep pollInterval w))) \<longrightarrow>
         freshAfter n (agentWrites d0)
           (stdout (fst (shell deviceEnv catResultCommand (sleep pollInterval w)))))"
proof -
  obtain pre where p: "commandLine w [''shell'', catResultCommand] = pre @ ''shell '' @ catResultCommand"
    using commandLine_shell by blast
  note e = endsWith_suffix[of "''shell '' @ catResultCommand" pre] cat_is_not_rm[of pre]
  from assms have a: "agentWrites (dev w) = agentWrites d0" "delivered (dev w) = delivered d0"
    "n < steps (dev w)"
    "resultFile (dev w) = None \<or>
      (\<exists>t c. resultFile (dev w) = Some (t, c) \<and> n < t \<and> agentWrites d0 t = Some c)"
    by (auto simp: pollInvariant_def split: option.splits)
  show ?thesis
    unfolding shell_parts sleep_parts p pollInvariant_def
    using a e
    by (auto simp: deviceEnv_def Let_def adbResultOf_def failedCommand_def freshAfter_def
        split: option.splits)
qed

lemma waitForResult_fresh:
  assumes "delivered (dev w) (steps (dev w))"
    and "waitForResult J deviceEnv ident w = (Some v, w')"
  shows "\<exists>s. freshAfter (steps (dev w)) (agentWrites (dev w)) s \<and> json_parse J s = Some v"
proof -
  let ?w1 = "snd (shell deviceEnv rmResultCommand w)"
  from assms(2) have p: "pollLoop J deviceEnv (clock w) ?w1 = (Some v, w')"
    by (simp add: waitForResult_def Let_def)
  show ?thesis
    by (rule pollLoop_result[where I = "pollInvariant (steps (dev w)) (dev w)", OF _ _ p])
       (auto intro: cat_step rm_establishes[OF assms(1)] simp: cat_step)
qed

lemma connectEnterprise_polled:
  assumes "connectEnterprise J E cfg w = (FromAgent v, w')"
  shows "\<exists>w3. waitForResult J E (eap_ssid cfg) w3 = (Some v, w')
    \<and> w3 = snd (shell E broadcastCommand
              (writeCommandFile J E \<lparr> action = ''connect_enterprise'',
                   timestamp = clock (snd (isCompanionAppInstalled E w)), config = cfg \<rparr>
                 (snd (isCompanionAppInstalled E w))))"
  using assms
  by (auto simp: connectEnterprise_def Let_def split: if_splits prod.splits option.splits)

lemma isCompanionAppInstalled_snd:
  "snd (isCompanionAppInstalled E w) =
     snd (shell E (''pm list packages | grep '' @ COMPANION_PACKAGE) w)"
  by (simp add: isCompanionAppInstalled_def split: prod.splits)

text \<open>
  The exchange on the device model. The fourth command of an exchange (after the package
  query, the write of the command file and the broadcast) is the \<^verbatim>\<open>rm -f\<close> of the result
  file. When it reaches the device, a value the exchange returns from the poll was parsed
  from content written after that command; seen from \<^verbatim>\<open>waitForResult\<close>: the file is gone
  once its first command ran, the poll starts from that state, and a value it returns
  stems from a later write.
\<close>

theorem stale_result_not_returned:
  "(delivered (dev w) (steps (dev w) + 3) \<and>
    connectEnterprise J deviceEnv cfg w = (FromAgent v, w') \<longrightarrow>
      (\<exists>s. freshAfter (steps (dev w) + 3) (agentWrites (dev w)) s \<and> json_parse J s = Some v))
   \<and> (delivered (dev u) (steps (dev u)) \<longrightarrow>
        resultFile (dev (snd (shell deviceEnv rmResultCommand u))) = None
        \<and> waitForResult J deviceEnv i u =
            pollLoop J deviceEnv (clock u) (snd (shell deviceEnv rmResultCommand u))
        \<and> (waitForResult J deviceEnv i u = (Some v, u') \<longrightarrow>
             (\<exists>s. freshAfter (steps (dev u)) (agentWrites (dev u)) s \<and> json_parse J s = Some v)))"
proof (intro conjI impI)
  assume a: "delivered (dev w) (steps (dev w) + 3) \<and>
    connectEnterprise J deviceEnv cfg w = (FromAgent v, w')"
  let ?w1 = "snd (isCompanionAppInstalled deviceEnv w)"
  let ?w2 = "writeCommandFile J deviceEnv \<lparr> action = ''connect_enterprise'',
                   timestamp = clock ?w1, config = cfg \<rparr> ?w1"
  let ?w3 = "snd (shell deviceEnv broadcastCommand ?w2)"
  from a connectEnterprise_polled[of J deviceEnv cfg w v w']
  have p: "waitForResult J deviceEnv (eap_ssid cfg) ?w3 = (Some v, w')" by simp
  have s: "steps (dev ?w3) = steps (dev w) + 3" "agentWrites (dev ?w3) = agentWrites (dev w)"
    "delivered (dev ?w3) = delivered (dev w)"
    by (simp_all add: isCompanionAppInstalled_snd writeCommandFile_def Let_def shell_static)
  from a s have "delivered (dev ?w3) (steps (dev ?w3))" by simp
  from waitForResult_fresh[OF this p] s
  show "\<exists>s. freshAfter (steps (dev w) + 3) (agentWrites (dev w)) s \<and> json_parse J s = Some v"
    by simp
next
  assume "delivered (dev u) (steps (dev u))"
  then show "resultFile (dev (snd (shell deviceEnv rmResultCommand u))) = None"
    by (rule rm_removes)
next
  show "waitForResult J deviceEnv i u =
            pollLoop J deviceEnv (clock u) (snd (shell deviceEnv rmResultCommand u))"
    by (simp add: waitForResult_def Let_def)
next
  assume "delivered (dev u) (steps (dev u))" "waitForResult J deviceEnv i u = (Some v, u')"
  then show "\<exists>s. freshAfter (steps (dev u)) (agentWrites (dev u)) s \<and> json_parse J s = Some v"
    by (rule waitForResult_fresh)
qed

lemmas enterprise_eval = connectEnterprise_def isCompanionAppInstalled_def writeCommandFile_def
  shellEscape_def waitForResult_def pollLoop.simps deviceEnv_def endsWith_def failedCommand_def
  rmResultCommand_def catResultCommand_def broadcastCommand_def RESULT_FILE_def COMMAND_FILE_def
  COMPANION_PACKAGE_def RESULT_TIMEOUT_def pollInterval_def falsyStr_def toyJson_def
  peapConfig_def peapNoPassword_def deviceWorld_def exec_eval trim_def isWs_def Let_def

theorem stale_result_not_returned_witness:
  "delivered (dev (deviceWorld freshDevice)) (steps (dev (deviceWorld freshDevice)) + 3)
   \<and> resultFile (dev (deviceWorld freshDevice)) = Some (0, staleJson)
   \<and> fst (connectEnterprise toyJson deviceEnv peapConfig (deviceWorld freshDevice))
       = FromAgent freshJson
   \<and> (\<exists>s. freshAfter 4 (agentWrites freshDevice) s \<and> json_parse toyJson s = Some freshJson)
   \<and> resultFile (dev (snd (shell deviceEnv rmResultCommand (deviceWorld freshDevice)))) = None"
proof -
  let ?w = "deviceWorld freshDevice"
  have d: "delivered (dev ?w) (steps (dev ?w) + 3)" "delivered (dev ?w) (steps (dev ?w))"
    by (simp_all add: deviceWorld_def freshDevice_def)
  have f: "resultFile (dev ?w) = Some (0, staleJson)"
    by (simp add: deviceWorld_def freshDevice_def staleDevice_def)
  have r: "fst (connectEnterprise toyJson deviceEnv peapConfig ?w) = FromAgent freshJson"
    by (simp add: freshDevice_def staleDevice_def staleJson_def freshJson_def enterprise_eval)
  then have c: "connectEnterprise toyJson deviceEnv peapConfig ?w
      = (FromAgent freshJson, snd (connectEnterprise toyJson deviceEnv peapConfig ?w))"
    by (metis prod.collapse)
  have st: "steps (dev ?w) + 3 = 4" "agentWrites (dev ?w) = agentWrites freshDevice"
    by (simp_all add: deviceWorld_def freshDevice_def staleDevice_def)
  from stale_result_not_returned[of ?w toyJson peapConfig freshJson
        "snd (connectEnterprise toyJson deviceEnv peapConfig ?w)" ?w] d c
  have "(\<exists>s. freshAfter (steps (dev ?w) + 3) (agentWrites (dev ?w)) s
            \<and> json_parse toyJson s = Some freshJson)"
    and "resultFile (dev (snd (shell deviceEnv rmResultCommand ?w))) = None"
    by blast+
  with d f r st show ?thesis by simp
qed

text \<open>
  Claim C7 at the failing input. \<^verbatim>\<open>waitForResult\<close> does not look at the outcome of its
  \<^verbatim>\<open>rm -f\<close> (the outcome of the broadcast just before is checked). Here that command
  fails to reach the device, nothing writes the result file afterwards, and the first poll
  returns the content that was there before the broadcast.
\<close>

theorem stale_result_returned_when_rm_fails:
  "resultFile (dev (deviceWorld staleDevice)) = Some (0, staleJson)
   \<and> agentWrites staleDevice = (\<lambda>n. None)
   \<and> \<not> delivered staleDevice 4
   \<and> fst (connectEnterprise toyJson deviceEnv peapConfig (deviceWorld staleDevice))
       = FromAgent staleJson
   \<and> log (snd (connectEnterprise toyJson deviceEnv peapConfig (deviceWorld staleDevice))) =
       [''adb shell pm list packages | grep com.example.wifimcpcompanion'',
        ''adb shell echo '' @ [CHR 0x27] @ ''{}'' @ [CHR 0x27] @ '' > /sdcard/Download/wifi_mcp_command.json'',
        ''adb shell am broadcast -a com.example.wifimcpcompanion.CONNECT_ENTERPRISE -n com.example.wifimcpcompanion/.AdbBridgeReceiver --es config_file '' @ [CHR 0x22] @ ''/sdcard/Download/wifi_mcp_command.json'' @ [CHR 0x22],
        ''adb shell rm -f /sdcard/Download/wifi_mcp_result.json'',
        ''adb shell cat /sdcard/Download/wifi_mcp_result.json 2>/dev/null'',
        ''adb shell rm -f /sdcard/Download/wifi_mcp_result.json'']"
  by (simp add: staleDevice_def staleJson_def enterprise_eval)

end
